theory Spec2Isabelle
  imports Complex_Main "HOL-Library.Word"
begin

section \<open>Values, strings and JavaScript built-ins\<close>

text \<open>
  The service is the Express application of \<^verbatim>\<open>src/unnamed/part_001\<close> (the other two
  source files are earlier, shorter copies of the same program).  JavaScript numbers and
  PostgreSQL NUMERIC values are modelled as exact rationals; strings are lists of
  characters with code points below 256.
\<close>

type_synonym num = rat

definition lower_char :: "char \<Rightarrow> char" where
  "lower_char c =
     (let n = (of_char c :: nat) in if 65 \<le> n \<and> n \<le> 90 then char_of (n + 32) else c)"

text \<open>SQL \<^verbatim>\<open>LOWER(...)\<close>.\<close>

definition lower :: "string \<Rightarrow> string" where
  "lower s = map lower_char s"

definition is_digit :: "char \<Rightarrow> bool" where
  "is_digit c = (let n = (of_char c :: nat) in 48 \<le> n \<and> n \<le> 57)"

text \<open>The regular expression \<^verbatim>\<open>/^\d{5}(-\d{4})?$/\<close>.\<close>

definition zip_pattern :: "string \<Rightarrow> bool" where
  "zip_pattern s =
     ((length s = 5 \<and> list_all is_digit s) \<or>
      (length s = 10 \<and> list_all is_digit (take 5 s) \<and> s ! 5 = CHR ''-'' \<and>
       list_all is_digit (drop 6 s)))"

text \<open>\<^verbatim>\<open>Math.round\<close>, \<^verbatim>\<open>Math.ceil\<close> and \<^verbatim>\<open>Math.floor\<close> on exact values.\<close>

definition math_round :: "num \<Rightarrow> int" where
  "math_round x = \<lfloor>x + 1 / 2\<rfloor>"

definition math_ceil :: "num \<Rightarrow> int" where
  "math_ceil x = \<lceil>x\<rceil>"

definition math_floor :: "num \<Rightarrow> int" where
  "math_floor x = \<lfloor>x\<rfloor>"

text \<open>
  \<^verbatim>\<open>parseInt(string)\<close> with no radix argument: leading white space is skipped, an
  optional sign is read, a \<^verbatim>\<open>0x\<close>/\<^verbatim>\<open>0X\<close> prefix selects radix 16, and the longest
  prefix of digits is converted.  \<open>None\<close> is \<^verbatim>\<open>NaN\<close>.
\<close>

definition is_space :: "char \<Rightarrow> bool" where
  "is_space c = ((of_char c :: nat) \<in> {9, 10, 11, 12, 13, 32, 160})"

definition digit_val :: "nat \<Rightarrow> char \<Rightarrow> nat option" where
  "digit_val radix c =
     (let n = (of_char c :: nat);
          d = (if 48 \<le> n \<and> n \<le> 57 then Some (n - 48)
               else if 97 \<le> n \<and> n \<le> 122 then Some (n - 87)
               else if 65 \<le> n \<and> n \<le> 90 then Some (n - 55)
               else None)
      in case d of None \<Rightarrow> None | Some v \<Rightarrow> if v < radix then Some v else None)"

fun digits_prefix :: "nat \<Rightarrow> string \<Rightarrow> nat list" where
  "digits_prefix radix [] = []"
| "digits_prefix radix (c # cs) =
     (case digit_val radix c of None \<Rightarrow> [] | Some v \<Rightarrow> v # digits_prefix radix cs)"

definition parseInt :: "string \<Rightarrow> int option" where
  "parseInt s =
     (let t = dropWhile is_space s;
          neg = (take 1 t = ''-'');
          t1 = (if take 1 t = ''-'' \<or> take 1 t = ''+'' then drop 1 t else t);
          hex = (take 2 t1 = ''0x'' \<or> take 2 t1 = ''0X'');
          radix = (if hex then 16 else 10);
          ds = digits_prefix radix (if hex then drop 2 t1 else t1)
      in if ds = [] then None
         else Some ((if neg then - 1 else 1) * int (foldl (\<lambda>a d. a * radix + d) 0 ds)))"

section \<open>Joi validation\<close>

text \<open>
  The schemas are written with the Joi library; a schema is the list of the rules chained
  in the source, and \<open>joi_number\<close>, \<open>joi_string\<close> and \<open>joi_boolean\<close> interpret such a list
  the way \<^verbatim>\<open>schema.validate(value)\<close> does with its default options (\<^verbatim>\<open>convert\<close> and
  \<^verbatim>\<open>abortEarly\<close> on): an absent optional key passes, \<^verbatim>\<open>precision\<close> rounds the value,
  the rules are checked in order and the first failure is the error.  The input records hold
  the request's values after Joi's coercion of numeric and boolean strings; keys the schema
  does not know and values of the wrong type are outside the records' types, and Joi's
  refusal of numbers beyond the safe-integer range is left out.
\<close>

datatype limit = Lit num | Ref string

datatype num_rule =
    NRequired
  | NDefault num
  | NPositive
  | NInteger
  | NPrecision nat
  | NMin limit
  | NMax limit
  | NGreater limit

datatype str_rule =
    SRequired
  | SMin nat
  | SMax nat
  | SPattern "string \<Rightarrow> bool"
  | SValid "string list"

datatype joi_error = JoiError string string

fun resolve :: "(string \<times> num option) list \<Rightarrow> limit \<Rightarrow> num option" where
  "resolve anc (Lit c) = Some c"
| "resolve anc (Ref k) = (case map_of anc k of None \<Rightarrow> None | Some v \<Rightarrow> v)"

text \<open>
  One rule on a present number: \<open>None\<close> when it passes, otherwise Joi's error code.  A
  reference that resolves to no number fails the rule with \<^verbatim>\<open>any.ref\<close>.
\<close>

fun check_num_rule :: "(string \<times> num option) list \<Rightarrow> num_rule \<Rightarrow> num \<Rightarrow> string option" where
  "check_num_rule anc NRequired x = None"
| "check_num_rule anc (NDefault d) x = None"
| "check_num_rule anc NPositive x = (if 0 < x then None else Some ''number.positive'')"
| "check_num_rule anc NInteger x =
     (if x = of_int \<lfloor>x\<rfloor> then None else Some ''number.integer'')"
| "check_num_rule anc (NPrecision n) x = None"
| "check_num_rule anc (NMin l) x =
     (case resolve anc l of None \<Rightarrow> Some ''any.ref''
      | Some c \<Rightarrow> if c \<le> x then None else Some ''number.min'')"
| "check_num_rule anc (NMax l) x =
     (case resolve anc l of None \<Rightarrow> Some ''any.ref''
      | Some c \<Rightarrow> if x \<le> c then None else Some ''number.max'')"
| "check_num_rule anc (NGreater l) x =
     (case resolve anc l of None \<Rightarrow> Some ''any.ref''
      | Some c \<Rightarrow> if c < x then None else Some ''number.greater'')"

fun check_num_rules :: "(string \<times> num option) list \<Rightarrow> num_rule list \<Rightarrow> num \<Rightarrow> string option" where
  "check_num_rules anc [] x = None"
| "check_num_rules anc (r # rs) x =
     (case check_num_rule anc r x of None \<Rightarrow> check_num_rules anc rs x | Some e \<Rightarrow> Some e)"

text \<open>With \<^verbatim>\<open>convert\<close> on, a \<^verbatim>\<open>precision(n)\<close> rule rounds the value to \<open>n\<close> decimals.\<close>

fun convert_num :: "num_rule list \<Rightarrow> num \<Rightarrow> num" where
  "convert_num [] x = x"
| "convert_num (NPrecision n # rs) x = of_int (math_round (x * 10 ^ n)) / 10 ^ n"
| "convert_num (r # rs) x = convert_num rs x"

fun num_required :: "num_rule list \<Rightarrow> bool" where
  "num_required [] = False"
| "num_required (NRequired # rs) = True"
| "num_required (r # rs) = num_required rs"

fun num_default :: "num_rule list \<Rightarrow> num option" where
  "num_default [] = None"
| "num_default (NDefault d # rs) = Some d"
| "num_default (r # rs) = num_default rs"

definition joi_number ::
  "num_rule list \<Rightarrow> (string \<times> num option) list \<Rightarrow> string \<Rightarrow> num option \<Rightarrow> joi_error + num option" where
  "joi_number rules anc key v =
     (case v of
        None \<Rightarrow> if num_required rules then Inl (JoiError key ''any.required'')
                else Inr (num_default rules)
      | Some x \<Rightarrow>
          (case check_num_rules anc rules (convert_num rules x) of
             Some e \<Rightarrow> Inl (JoiError key e)
           | None \<Rightarrow> Inr (Some (convert_num rules x))))"

fun check_str_rule :: "str_rule \<Rightarrow> string \<Rightarrow> string option" where
  "check_str_rule SRequired s = None"
| "check_str_rule (SMin n) s = (if n \<le> length s then None else Some ''string.min'')"
| "check_str_rule (SMax n) s = (if length s \<le> n then None else Some ''string.max'')"
| "check_str_rule (SPattern p) s = (if p s then None else Some ''string.pattern.base'')"
| "check_str_rule (SValid vs) s = (if s \<in> set vs then None else Some ''any.only'')"

fun check_str_rules :: "str_rule list \<Rightarrow> string \<Rightarrow> string option" where
  "check_str_rules [] s = None"
| "check_str_rules (r # rs) s =
     (case check_str_rule r s of None \<Rightarrow> check_str_rules rs s | Some e \<Rightarrow> Some e)"

fun str_required :: "str_rule list \<Rightarrow> bool" where
  "str_required [] = False"
| "str_required (SRequired # rs) = True"
| "str_required (r # rs) = str_required rs"

fun str_valids :: "str_rule list \<Rightarrow> bool" where
  "str_valids [] = False"
| "str_valids (SValid vs # rs) = True"
| "str_valids (r # rs) = str_valids rs"

text \<open>\<^verbatim>\<open>Joi.string()\<close> refuses the empty string unless it is listed by \<^verbatim>\<open>valid\<close>.\<close>

definition joi_string :: "str_rule list \<Rightarrow> string \<Rightarrow> string option \<Rightarrow> joi_error + string option" where
  "joi_string rules key v =
     (case v of
        None \<Rightarrow> if str_required rules then Inl (JoiError key ''any.required'') else Inr None
      | Some s \<Rightarrow>
          if s = [] \<and> \<not> str_valids rules then Inl (JoiError key ''string.empty'')
          else (case check_str_rules rules s of
                  Some e \<Rightarrow> Inl (JoiError key e)
                | None \<Rightarrow> Inr (Some s)))"

definition joi_boolean :: "string \<Rightarrow> bool option \<Rightarrow> joi_error + bool option" where
  "joi_boolean key v = Inr v"

definition bind_err :: "'e + 'a \<Rightarrow> ('a \<Rightarrow> 'e + 'b) \<Rightarrow> 'e + 'b" where
  "bind_err m f = (case m of Inl e \<Rightarrow> Inl e | Inr x \<Rightarrow> f x)"

section \<open>The relational store\<close>

text \<open>
  The tables of \<^verbatim>\<open>/setup-database\<close> and the columns of \<^verbatim>\<open>users\<close> the service reads.
  Nullable columns are options.  node-postgres delivers NUMERIC and BIGINT values
  (amounts, averages, counts) as text, which the handlers parse; the model keeps the number.
  The id of a user is a value of the INTEGER type, a signed 32-bit word, and \<open>user_id\<close>
  is the number it stands for; \<^verbatim>\<open>properties.landlord_id\<close> references it.
\<close>

record user =
  u_id :: "32 word"
  u_role :: string
  u_first_name :: string
  u_last_name :: string
  u_email :: string

definition user_id :: "user \<Rightarrow> int" where
  "user_id u = sint (u_id u)"

record property =
  p_id :: int
  p_address :: string
  p_city :: string
  p_state :: string
  p_zip_code :: string
  p_rent_amount :: "num option"
  p_bedrooms :: "int option"
  p_bathrooms :: "num option"
  p_square_feet :: "int option"
  p_description :: "string option"
  p_landlord_id :: "int option"
  p_landlord_verified :: bool
  p_created_at :: nat
  p_updated_at :: nat

text \<open>The JSON body of \<^verbatim>\<open>POST /properties\<close> (\<^verbatim>\<open>req.body\<close>); an absent key is \<open>None\<close>.\<close>

record create_body =
  b_address :: "string option"
  b_city :: "string option"
  b_state :: "string option"
  b_zip_code :: "string option"
  b_rent_amount :: "num option"
  b_bedrooms :: "num option"
  b_bathrooms :: "num option"
  b_square_feet :: "num option"
  b_description :: "string option"
  b_landlord_id :: "num option"

record store =
  users :: "user list"
  properties :: "property list"
  next_id :: int
  now :: nat

datatype column =
  City | State | ZipCode | RentAmount | Bedrooms | Bathrooms | SquareFeet | LandlordVerified
  | CreatedAt

datatype val = Null | Str string | Num num | Bool bool

text \<open>
  A condition of the WHERE clause: the column, the operator and the number \<open>n\<close> of its
  placeholder \<^verbatim>\<open>$n\<close>.
\<close>

datatype sql_cond =
    SqlLowerLike column nat
  | SqlLowerEq column nat
  | SqlEq column nat
  | SqlGe column nat
  | SqlLe column nat

datatype direction = Asc | Desc

text \<open>\<^verbatim>\<open>ORDER BY column direction [NULLS LAST]\<close>.\<close>

datatype order_clause = OrderBy column direction bool

datatype query =
    CreateTable
  | SelectUser "num option"
  | SelectDuplicate "string option" "string option"
  | InsertProperty create_body
  | SelectProperty int
  | SearchQuery "sql_cond list" order_clause nat nat "val list"
  | CountQuery "sql_cond list" "val list"
  | StatsQuery

record stats_row =
  st_total_properties :: nat
  st_verified_properties :: nat
  st_avg_rent :: "num option"
  st_min_rent :: "num option"
  st_max_rent :: "num option"
  st_avg_bedrooms :: "num option"
  st_avg_bathrooms :: "num option"
  st_avg_sqft :: "num option"
  st_cities_count :: nat
  st_states_count :: nat

datatype result =
    Rows_none
  | Rows_users "user list"
  | Rows_ids "int list"
  | Rows_properties "property list"
  | Rows_joined "(property \<times> user) list"
  | Rows_count nat
  | Rows_stats "stats_row list"

text \<open>A rejected query or another exception, with its \<^verbatim>\<open>error.code\<close> if it has one.\<close>

datatype error = Error "string option"

type_synonym reply = "error + result"

definition foreign_key_violation :: error where
  "foreign_key_violation = Error (Some ''23503'')"

definition not_null_violation :: error where
  "not_null_violation = Error (Some ''23502'')"

definition protocol_violation :: error where
  "protocol_violation = Error (Some ''08P01'')"

definition numeric_value_out_of_range :: error where
  "numeric_value_out_of_range = Error (Some ''22003'')"

definition invalid_text_representation :: error where
  "invalid_text_representation = Error (Some ''22P02'')"

text \<open>
  A number sent as the parameter of an INTEGER column or comparison.  The driver sends its
  decimal text; the server refuses a text that is not a whole number (a fraction, or the
  exponent form JavaScript prints from \<open>10\<^sup>2\<^sup>1\<close> on) and a whole number outside
  \<open>-2\<^sup>3\<^sup>1 .. 2\<^sup>3\<^sup>1 - 1\<close>.  \<open>None\<close>: the parameter is accepted.
\<close>

definition int4_error :: "num \<Rightarrow> error option" where
  "int4_error x =
     (if x \<noteq> of_int \<lfloor>x\<rfloor> \<or> 10 ^ 21 \<le> \<bar>x\<bar> then Some invalid_text_representation
      else if x < - 2147483648 \<or> 2147483647 < x then Some numeric_value_out_of_range
      else None)"

text \<open>The first refusal among the parameters of a statement that are present.\<close>

fun int4_errors :: "num option list \<Rightarrow> error option" where
  "int4_errors [] = None"
| "int4_errors (None # xs) = int4_errors xs"
| "int4_errors (Some x # xs) =
     (case int4_error x of None \<Rightarrow> int4_errors xs | Some e \<Rightarrow> Some e)"

definition col_val :: "column \<Rightarrow> property \<Rightarrow> val" where
  "col_val c p =
     (case c of
        City \<Rightarrow> Str (p_city p)
      | State \<Rightarrow> Str (p_state p)
      | ZipCode \<Rightarrow> Str (p_zip_code p)
      | RentAmount \<Rightarrow> (case p_rent_amount p of None \<Rightarrow> Null | Some x \<Rightarrow> Num x)
      | Bedrooms \<Rightarrow> (case p_bedrooms p of None \<Rightarrow> Null | Some x \<Rightarrow> Num (of_int x))
      | Bathrooms \<Rightarrow> (case p_bathrooms p of None \<Rightarrow> Null | Some x \<Rightarrow> Num x)
      | SquareFeet \<Rightarrow> (case p_square_feet p of None \<Rightarrow> Null | Some x \<Rightarrow> Num (of_int x))
      | LandlordVerified \<Rightarrow> Bool (p_landlord_verified p)
      | CreatedAt \<Rightarrow> Num (of_nat (p_created_at p)))"

text \<open>The value bound to \<^verbatim>\<open>$n\<close>.\<close>

definition param :: "val list \<Rightarrow> nat \<Rightarrow> val" where
  "param ps n = (if 1 \<le> n \<and> n \<le> length ps then ps ! (n - 1) else Null)"

fun tails :: "'a list \<Rightarrow> 'a list list" where
  "tails [] = [[]]"
| "tails (x # xs) = (x # xs) # tails xs"

text \<open>
  SQL \<^verbatim>\<open>text LIKE pattern\<close>: \<^verbatim>\<open>%\<close> matches any run of characters, \<^verbatim>\<open>_\<close> any one
  character, and a backslash takes the next character of the pattern literally.
\<close>

fun like :: "string \<Rightarrow> string \<Rightarrow> bool" where
  "like [] s = (s = [])"
| "like (c # pat) s =
     (if c = CHR ''%'' then list_ex (like pat) (tails s)
      else if c = CHR ''_'' then (case s of [] \<Rightarrow> False | x # xs \<Rightarrow> like pat xs)
      else if c = CHR 0x5C then
        (case pat of [] \<Rightarrow> False
         | d # pat' \<Rightarrow> (case s of [] \<Rightarrow> False | x # xs \<Rightarrow> x = d \<and> like pat' xs))
      else (case s of [] \<Rightarrow> False | x # xs \<Rightarrow> x = c \<and> like pat xs))"

text \<open>
  Whether a condition is true of a row; a comparison with NULL is not true (three-valued
  logic), so the row is left out.
\<close>

fun eval_cond :: "val list \<Rightarrow> property \<Rightarrow> sql_cond \<Rightarrow> bool" where
  "eval_cond ps p (SqlLowerLike c n) =
     (case (col_val c p, param ps n) of (Str a, Str b) \<Rightarrow> like (lower b) (lower a) | _ \<Rightarrow> False)"
| "eval_cond ps p (SqlLowerEq c n) =
     (case (col_val c p, param ps n) of (Str a, Str b) \<Rightarrow> lower a = lower b | _ \<Rightarrow> False)"
| "eval_cond ps p (SqlEq c n) =
     (case (col_val c p, param ps n) of
        (Str a, Str b) \<Rightarrow> a = b
      | (Num a, Num b) \<Rightarrow> a = b
      | (Bool a, Bool b) \<Rightarrow> a = b
      | _ \<Rightarrow> False)"
| "eval_cond ps p (SqlGe c n) =
     (case (col_val c p, param ps n) of (Num a, Num b) \<Rightarrow> b \<le> a | _ \<Rightarrow> False)"
| "eval_cond ps p (SqlLe c n) =
     (case (col_val c p, param ps n) of (Num a, Num b) \<Rightarrow> a \<le> b | _ \<Rightarrow> False)"

fun placeholder :: "sql_cond \<Rightarrow> nat" where
  "placeholder (SqlLowerLike c n) = n"
| "placeholder (SqlLowerEq c n) = n"
| "placeholder (SqlEq c n) = n"
| "placeholder (SqlGe c n) = n"
| "placeholder (SqlLe c n) = n"

text \<open>
  The server accepts a parameter list only when it has one value for each of the
  placeholders \<^verbatim>\<open>$1 .. $n\<close> the statement uses.
\<close>

definition params_fit :: "nat list \<Rightarrow> val list \<Rightarrow> bool" where
  "params_fit used ps =
     (list_all (\<lambda>n. 1 \<le> n \<and> n \<le> length ps) used \<and>
      list_all (\<lambda>n. n \<in> set used) [1..<Suc (length ps)])"

text \<open>\<^verbatim>\<open>FROM properties p JOIN users u ON p.landlord_id = u.id\<close>.\<close>

definition joined :: "store \<Rightarrow> (property \<times> user) list" where
  "joined s =
     concat (map (\<lambda>p. map (\<lambda>u. (p, u)) (filter (\<lambda>u. p_landlord_id p = Some (user_id u)) (users s)))
                 (properties s))"

definition where_rows :: "sql_cond list \<Rightarrow> val list \<Rightarrow> (property \<times> user) list \<Rightarrow> (property \<times> user) list" where
  "where_rows conds ps rows = filter (\<lambda>(p, u). list_all (eval_cond ps p) conds) rows"

definition sort_value :: "column \<Rightarrow> property \<Rightarrow> num option" where
  "sort_value c p = (case col_val c p of Num x \<Rightarrow> Some x | _ \<Rightarrow> None)"

text \<open>
  Rows with equal keys come in an order SQL leaves open; the model sorts stably.  Without
  \<^verbatim>\<open>NULLS LAST\<close> a descending order puts the NULLs first.
\<close>

definition order_rows :: "order_clause \<Rightarrow> (property \<times> user) list \<Rightarrow> (property \<times> user) list" where
  "order_rows oc rows =
     (case oc of OrderBy c d nulls_last \<Rightarrow>
        (let present = filter (\<lambda>(p, u). sort_value c p \<noteq> None) rows;
             absent = filter (\<lambda>(p, u). sort_value c p = None) rows;
             ascending = sort_key (\<lambda>(p, u). the (sort_value c p)) present
         in case d of
              Asc \<Rightarrow> ascending @ absent
            | Desc \<Rightarrow> if nulls_last then rev ascending @ absent else absent @ rev ascending))"

definition sql_avg :: "num option list \<Rightarrow> num option" where
  "sql_avg vs =
     (let xs = map the (filter (\<lambda>v. v \<noteq> None) vs)
      in if xs = [] then None else Some (sum_list xs / of_nat (length xs)))"

definition sql_min :: "num option list \<Rightarrow> num option" where
  "sql_min vs =
     (case map the (filter (\<lambda>v. v \<noteq> None) vs) of [] \<Rightarrow> None | x # xs \<Rightarrow> Some (fold min xs x))"

definition sql_max :: "num option list \<Rightarrow> num option" where
  "sql_max vs =
     (case map the (filter (\<lambda>v. v \<noteq> None) vs) of [] \<Rightarrow> None | x # xs \<Rightarrow> Some (fold max xs x))"

text \<open>The aggregate row of the statistics query, over the rows with a rent.\<close>

definition stats_of :: "property list \<Rightarrow> stats_row" where
  "stats_of ps =
     (let rows = filter (\<lambda>p. p_rent_amount p \<noteq> None) ps
      in \<lparr> st_total_properties = length rows,
           st_verified_properties = length (filter p_landlord_verified rows),
           st_avg_rent = sql_avg (map p_rent_amount rows),
           st_min_rent = sql_min (map p_rent_amount rows),
           st_max_rent = sql_max (map p_rent_amount rows),
           st_avg_bedrooms = sql_avg (map (\<lambda>p. map_option of_int (p_bedrooms p)) rows),
           st_avg_bathrooms = sql_avg (map p_bathrooms rows),
           st_avg_sqft = sql_avg (map (\<lambda>p. map_option of_int (p_square_feet p)) rows),
           st_cities_count = length (remdups (map p_city rows)),
           st_states_count = length (remdups (map p_state rows)) \<rparr>)"

definition is_nat_num :: "val \<Rightarrow> bool" where
  "is_nat_num v = (case v of Num x \<Rightarrow> 0 \<le> x \<and> x = of_int \<lfloor>x\<rfloor> | _ \<Rightarrow> False)"

definition nat_of_val :: "val \<Rightarrow> nat" where
  "nat_of_val v = (case v of Num x \<Rightarrow> nat \<lfloor>x\<rfloor> | _ \<Rightarrow> 0)"

text \<open>The row an INSERT with these parameters adds (\<^verbatim>\<open>RETURNING *\<close>).\<close>

definition inserted_row :: "create_body \<Rightarrow> string \<Rightarrow> string \<Rightarrow> string \<Rightarrow> string \<Rightarrow> store \<Rightarrow> property" where
  "inserted_row b address city state zip_code s =
     \<lparr> p_id = next_id s, p_address = address, p_city = city,
       p_state = state, p_zip_code = zip_code,
       p_rent_amount = b_rent_amount b,
       p_bedrooms = map_option floor (b_bedrooms b),
       p_bathrooms = b_bathrooms b,
       p_square_feet = map_option floor (b_square_feet b),
       p_description = b_description b,
       p_landlord_id = map_option floor (b_landlord_id b),
       p_landlord_verified = False,
       p_created_at = now s, p_updated_at = now s \<rparr>"

text \<open>
  One statement against the store.  A statement with a parameter that its INTEGER column
  refuses fails before it runs.  The INSERT checks the NOT NULL columns and the foreign key
  to \<^verbatim>\<open>users\<close>, takes the next value of the id sequence (also when one of these two
  checks fails), and fills \<^verbatim>\<open>landlord_verified\<close> and the timestamps with their defaults.
\<close>

definition pg :: "query \<Rightarrow> store \<Rightarrow> reply \<times> store" where
  "pg q s =
     (case q of
        CreateTable \<Rightarrow> (Inr Rows_none, s)
      | SelectUser lid \<Rightarrow>
          (case int4_errors [lid] of
             Some e \<Rightarrow> (Inl e, s)
           | None \<Rightarrow>
               (Inr (Rows_users
                  (filter (\<lambda>u. Some (of_int (user_id u)) = lid) (users s))), s))
      | SelectDuplicate address zip_code \<Rightarrow>
          (Inr (Rows_ids (map p_id (filter
             (\<lambda>p. Some (lower (p_address p)) = map_option lower address \<and>
                  Some (p_zip_code p) = zip_code) (properties s)))), s)
      | InsertProperty b \<Rightarrow>
          (case int4_errors [b_bedrooms b, b_square_feet b, b_landlord_id b] of
             Some e \<Rightarrow> (Inl e, s)
           | None \<Rightarrow>
          (case (b_address b, b_city b, b_state b, b_zip_code b) of
             (Some address, Some city, Some state, Some zip_code) \<Rightarrow>
               if (case b_landlord_id b of None \<Rightarrow> False
                   | Some l \<Rightarrow> \<not> list_ex (\<lambda>u. of_int (user_id u) = l) (users s))
               then (Inl foreign_key_violation, s\<lparr>next_id := next_id s + 1\<rparr>)
               else
                 (let row = inserted_row b address city state zip_code s
                  in (Inr (Rows_properties [row]),
                      s\<lparr>properties := properties s @ [row], next_id := next_id s + 1\<rparr>))
           | _ \<Rightarrow> (Inl not_null_violation, s\<lparr>next_id := next_id s + 1\<rparr>)))
      | SelectProperty i \<Rightarrow>
          (case int4_errors [Some (of_int i)] of
             Some e \<Rightarrow> (Inl e, s)
           | None \<Rightarrow> (Inr (Rows_joined (filter (\<lambda>(p, u). p_id p = i) (joined s))), s))
      | SearchQuery conds oc l off ps \<Rightarrow>
          if params_fit (map placeholder conds @ [l, off]) ps \<and>
             is_nat_num (param ps l) \<and> is_nat_num (param ps off)
          then (Inr (Rows_joined
                  (take (nat_of_val (param ps l))
                     (drop (nat_of_val (param ps off))
                        (order_rows oc (where_rows conds ps (joined s)))))), s)
          else (Inl protocol_violation, s)
      | CountQuery conds ps \<Rightarrow>
          if params_fit (map placeholder conds) ps
          then (Inr (Rows_count (length (where_rows conds ps (joined s)))), s)
          else (Inl protocol_violation, s)
      | StatsQuery \<Rightarrow> (Inr (Rows_stats [stats_of (properties s)]), s))"

section \<open>Request handlers\<close>

text \<open>
  An \<^verbatim>\<open>async\<close> handler is a program that either has its response or awaits one
  statement of the pool and continues with the reply, which is the rows or the exception
  the \<^verbatim>\<open>await\<close> throws.  Between two awaits other requests may run.
\<close>

datatype 'a prog = Done 'a | Await query "reply \<Rightarrow> 'a prog"

record pagination =
  total_count :: int
  total_pages :: int
  current_page :: int
  page_limit :: num
  page_offset :: num
  has_next :: bool
  has_previous :: bool

record filters_applied =
  f_city :: "string option"
  f_state :: "string option"
  f_zip_code :: "string option"
  f_rent_range :: "(num option \<times> num option) option"
  f_bedrooms_range :: "(num option \<times> num option) option"
  f_bathrooms_range :: "(num option \<times> num option) option"
  f_sqft_range :: "(num option \<times> num option) option"
  f_landlord_verified :: "bool option"
  f_sort_by :: string

record statistics =
  total_properties :: int
  verified_properties :: int
  verification_rate :: int
  rent_average :: "int option"
  rent_minimum :: "num option"
  rent_maximum :: "num option"
  avg_bedrooms :: "num option"
  avg_bathrooms :: "num option"
  avg_square_feet :: "int option"
  cities :: int
  states :: int

text \<open>
  The JSON bodies.  A listing is carried as the row the handler formats: the response
  object is a relabelling of that row's columns.
\<close>

datatype body =
    Message string
  | ErrorMessage string string
  | ErrorDetails string "joi_error list"
  | Conflict string string int
  | Created property
  | Found "property \<times> user"
  | SearchResults "(property \<times> user) list" pagination filters_applied
  | Statistics statistics

record response =
  status :: nat
  json :: body

text \<open>An exception that is not a database error has no \<^verbatim>\<open>code\<close>.\<close>

definition type_error :: error where
  "type_error = Error None"

subsection \<open>POST /properties\<close>

definition createPropertySchema :: "create_body \<Rightarrow> joi_error + create_body" where
  "createPropertySchema b =
     bind_err (joi_string [SRequired, SMin 5, SMax 500] ''address'' (b_address b)) (\<lambda>address.
     bind_err (joi_string [SRequired, SMin 2, SMax 100] ''city'' (b_city b)) (\<lambda>city.
     bind_err (joi_string [SRequired, SMin 2, SMax 50] ''state'' (b_state b)) (\<lambda>state.
     bind_err (joi_string [SRequired, SPattern zip_pattern] ''zip_code'' (b_zip_code b)) (\<lambda>zip_code.
     bind_err (joi_number [NPositive, NPrecision 2, NMax (Lit 50000)] [] ''rent_amount''
                 (b_rent_amount b)) (\<lambda>rent_amount.
     bind_err (joi_number [NInteger, NMin (Lit 0), NMax (Lit 20)] [] ''bedrooms''
                 (b_bedrooms b)) (\<lambda>bedrooms.
     bind_err (joi_number [NPositive, NPrecision 1, NMax (Lit 20)] [] ''bathrooms''
                 (b_bathrooms b)) (\<lambda>bathrooms.
     bind_err (joi_number [NInteger, NPositive, NMax (Lit 50000)] [] ''square_feet''
                 (b_square_feet b)) (\<lambda>square_feet.
     bind_err (joi_string [SMax 2000] ''description'' (b_description b)) (\<lambda>description.
     bind_err (joi_number [NInteger, NRequired] [] ''landlord_id''
                 (b_landlord_id b)) (\<lambda>landlord_id.
     Inr \<lparr> b_address = address, b_city = city, b_state = state, b_zip_code = zip_code,
           b_rent_amount = rent_amount, b_bedrooms = bedrooms, b_bathrooms = bathrooms,
           b_square_feet = square_feet, b_description = description,
           b_landlord_id = landlord_id \<rparr>))))))))))"

text \<open>The \<^verbatim>\<open>catch\<close> block of the create handler.\<close>

definition create_catch :: "error \<Rightarrow> response" where
  "create_catch e =
     (case e of Error code \<Rightarrow>
        if code = Some ''23503''
        then \<lparr> status = 400,
               json = ErrorMessage ''Invalid landlord_id'' ''The specified landlord does not exist'' \<rparr>
        else \<lparr> status = 500,
               json = ErrorMessage ''Internal server error'' ''Failed to create property'' \<rparr>)"

text \<open>The handler after the INSERT has been awaited.\<close>

definition create_inserted :: "reply \<Rightarrow> response prog" where
  "create_inserted result =
     (case result of
        Inl e \<Rightarrow> Done (create_catch e)
      | Inr (Rows_properties (newProperty # rest)) \<Rightarrow>
          Done \<lparr> status = 201, json = Created newProperty \<rparr>
      | Inr other \<Rightarrow> Done (create_catch type_error))"

text \<open>The handler after the duplicate check has been awaited.\<close>

definition create_duplicate_checked :: "create_body \<Rightarrow> reply \<Rightarrow> response prog" where
  "create_duplicate_checked v duplicateCheck =
     (case duplicateCheck of
        Inl e \<Rightarrow> Done (create_catch e)
      | Inr (Rows_ids []) \<Rightarrow> Await (InsertProperty v) create_inserted
      | Inr (Rows_ids (existing # rest)) \<Rightarrow>
          Done \<lparr> status = 409,
                 json = Conflict ''Property already exists''
                          ''A property with this address and zip code already exists'' existing \<rparr>
      | Inr other \<Rightarrow> Done (create_catch type_error))"

text \<open>The handler after the landlord check has been awaited.\<close>

definition create_landlord_checked :: "create_body \<Rightarrow> reply \<Rightarrow> response prog" where
  "create_landlord_checked v landlordCheck =
     (case landlordCheck of
        Inl e \<Rightarrow> Done (create_catch e)
      | Inr (Rows_users []) \<Rightarrow>
          Done \<lparr> status = 404,
                 json = ErrorMessage ''Landlord not found''
                          ''The specified landlord_id does not exist'' \<rparr>
      | Inr (Rows_users (landlord # rest)) \<Rightarrow>
          if u_role landlord \<noteq> ''landlord''
          then Done \<lparr> status = 403,
                      json = ErrorMessage ''Invalid user role''
                               ''Only users with landlord role can create properties'' \<rparr>
          else Await (SelectDuplicate (b_address v) (b_zip_code v)) (create_duplicate_checked v)
      | Inr other \<Rightarrow> Done (create_catch type_error))"

definition createProperty :: "create_body \<Rightarrow> response prog" where
  "createProperty req_body =
     (case createPropertySchema req_body of
        Inl err \<Rightarrow> Done \<lparr> status = 400, json = ErrorDetails ''Validation failed'' [err] \<rparr>
      | Inr v \<Rightarrow> Await (SelectUser (b_landlord_id v)) (create_landlord_checked v))"

subsection \<open>GET /properties/:id\<close>

definition getProperty :: "string \<Rightarrow> response prog" where
  "getProperty id_param =
     (case parseInt id_param of
        None \<Rightarrow>
          Done \<lparr> status = 400,
                 json = ErrorMessage ''Invalid property ID'' ''Property ID must be a number'' \<rparr>
      | Some propertyId \<Rightarrow>
          Await (SelectProperty propertyId) (\<lambda>result.
            case result of
              Inr (Rows_joined []) \<Rightarrow>
                Done \<lparr> status = 404,
                       json = ErrorMessage ''Property not found''
                                ''No property found with the specified ID'' \<rparr>
            | Inr (Rows_joined (property # rest)) \<Rightarrow>
                Done \<lparr> status = 200, json = Found property \<rparr>
            | other \<Rightarrow>
                Done \<lparr> status = 500,
                       json = ErrorMessage ''Internal server error'' ''Failed to fetch property'' \<rparr>))"

subsection \<open>GET /properties\<close>

text \<open>The query string (\<^verbatim>\<open>req.query\<close>); an absent parameter is \<open>None\<close>.\<close>

record search_query =
  q_city :: "string option"
  q_state :: "string option"
  q_zip_code :: "string option"
  q_min_rent :: "num option"
  q_max_rent :: "num option"
  q_min_bedrooms :: "num option"
  q_max_bedrooms :: "num option"
  q_min_bathrooms :: "num option"
  q_max_bathrooms :: "num option"
  q_min_sqft :: "num option"
  q_max_sqft :: "num option"
  q_landlord_verified :: "bool option"
  q_sort_by :: "string option"
  q_limit :: "num option"
  q_offset :: "num option"

text \<open>
  A \<^verbatim>\<open>Joi.ref\<close> to a sibling key resolves to that key's validated value, which is why
  each \<^verbatim>\<open>max_*\<close> key is given the value of its \<^verbatim>\<open>min_*\<close> key.
\<close>

definition searchPropertiesSchema :: "search_query \<Rightarrow> joi_error + search_query" where
  "searchPropertiesSchema q =
     bind_err (joi_string [SMin 2, SMax 100] ''city'' (q_city q)) (\<lambda>city.
     bind_err (joi_string [SMin 2, SMax 50] ''state'' (q_state q)) (\<lambda>state.
     bind_err (joi_string [SPattern zip_pattern] ''zip_code'' (q_zip_code q)) (\<lambda>zip_code.
     bind_err (joi_number [NPositive, NMax (Lit 50000)] [] ''min_rent''
                 (q_min_rent q)) (\<lambda>min_rent.
     bind_err (joi_number [NPositive, NMax (Lit 50000), NGreater (Ref ''min_rent'')]
                 [(''min_rent'', min_rent)] ''max_rent'' (q_max_rent q)) (\<lambda>max_rent.
     bind_err (joi_number [NInteger, NMin (Lit 0), NMax (Lit 20)] [] ''min_bedrooms''
                 (q_min_bedrooms q)) (\<lambda>min_bedrooms.
     bind_err (joi_number [NInteger, NMin (Lit 0), NMax (Lit 20), NMin (Ref ''min_bedrooms'')]
                 [(''min_bedrooms'', min_bedrooms)] ''max_bedrooms''
                 (q_max_bedrooms q)) (\<lambda>max_bedrooms.
     bind_err (joi_number [NPositive, NPrecision 1, NMax (Lit 20)] [] ''min_bathrooms''
                 (q_min_bathrooms q)) (\<lambda>min_bathrooms.
     bind_err (joi_number [NPositive, NPrecision 1, NMax (Lit 20), NMin (Ref ''min_bathrooms'')]
                 [(''min_bathrooms'', min_bathrooms)] ''max_bathrooms''
                 (q_max_bathrooms q)) (\<lambda>max_bathrooms.
     bind_err (joi_number [NInteger, NPositive, NMax (Lit 50000)] [] ''min_sqft''
                 (q_min_sqft q)) (\<lambda>min_sqft.
     bind_err (joi_number [NInteger, NPositive, NMax (Lit 50000), NMin (Ref ''min_sqft'')]
                 [(''min_sqft'', min_sqft)] ''max_sqft'' (q_max_sqft q)) (\<lambda>max_sqft.
     bind_err (joi_boolean ''landlord_verified'' (q_landlord_verified q)) (\<lambda>landlord_verified.
     bind_err (joi_string [SValid [''rent_asc'', ''rent_desc'', ''newest'', ''oldest'',
                                   ''sqft_asc'', ''sqft_desc'']] ''sort_by''
                 (q_sort_by q)) (\<lambda>sort_by.
     bind_err (joi_number [NInteger, NMin (Lit 1), NMax (Lit 100), NDefault 20] [] ''limit''
                 (q_limit q)) (\<lambda>limit.
     bind_err (joi_number [NInteger, NMin (Lit 0), NDefault 0] [] ''offset''
                 (q_offset q)) (\<lambda>offset.
     Inr \<lparr> q_city = city, q_state = state, q_zip_code = zip_code,
           q_min_rent = min_rent, q_max_rent = max_rent,
           q_min_bedrooms = min_bedrooms, q_max_bedrooms = max_bedrooms,
           q_min_bathrooms = min_bathrooms, q_max_bathrooms = max_bathrooms,
           q_min_sqft = min_sqft, q_max_sqft = max_sqft,
           q_landlord_verified = landlord_verified, q_sort_by = sort_by,
           q_limit = limit, q_offset = offset \<rparr>)))))))))))))))"

text \<open>JavaScript truthiness of an optional string and of an optional number.\<close>

definition truthy_str :: "string option \<Rightarrow> string option" where
  "truthy_str v = (case v of None \<Rightarrow> None | Some s \<Rightarrow> if s = [] then None else Some s)"

definition truthy_num :: "num option \<Rightarrow> bool" where
  "truthy_num v = (case v of None \<Rightarrow> False | Some x \<Rightarrow> x \<noteq> 0)"

text \<open>
  The twelve \<^verbatim>\<open>if\<close> blocks that build the WHERE clause, in the order of the source:
  the parameter to push when the block's test holds, and the condition text, which is
  given the number of the placeholder.
\<close>

definition where_filters :: "search_query \<Rightarrow> (val option \<times> (nat \<Rightarrow> sql_cond)) list" where
  "where_filters v =
     [ (map_option (\<lambda>city. Str (''%'' @ city @ ''%'')) (truthy_str (q_city v)), SqlLowerLike City),
       (map_option Str (truthy_str (q_state v)), SqlLowerEq State),
       (map_option Str (truthy_str (q_zip_code v)), SqlEq ZipCode),
       (map_option Num (q_min_rent v), SqlGe RentAmount),
       (map_option Num (q_max_rent v), SqlLe RentAmount),
       (map_option Num (q_min_bedrooms v), SqlGe Bedrooms),
       (map_option Num (q_max_bedrooms v), SqlLe Bedrooms),
       (map_option Num (q_min_bathrooms v), SqlGe Bathrooms),
       (map_option Num (q_max_bathrooms v), SqlLe Bathrooms),
       (map_option Num (q_min_sqft v), SqlGe SquareFeet),
       (map_option Num (q_max_sqft v), SqlLe SquareFeet),
       (map_option Bool (q_landlord_verified v), SqlEq LandlordVerified) ]"

text \<open>
  One block: \<^verbatim>\<open>paramCount++\<close>, push the condition with \<^verbatim>\<open>$paramCount\<close>, push the
  parameter.  The state is \<^verbatim>\<open>(whereConditions, queryParams, paramCount)\<close>.
\<close>

definition push_filter ::
  "sql_cond list \<times> val list \<times> nat \<Rightarrow> val option \<times> (nat \<Rightarrow> sql_cond) \<Rightarrow> sql_cond list \<times> val list \<times> nat" where
  "push_filter st f =
     (case st of (whereConditions, queryParams, paramCount) \<Rightarrow>
        (case f of
           (None, cond) \<Rightarrow> st
         | (Some p, cond) \<Rightarrow>
             (whereConditions @ [cond (paramCount + 1)], queryParams @ [p], paramCount + 1)))"

definition build_where :: "search_query \<Rightarrow> sql_cond list \<times> val list \<times> nat" where
  "build_where v = foldl push_filter ([], [], 0) (where_filters v)"

definition order_clause_of :: "string \<Rightarrow> order_clause" where
  "order_clause_of sort_by =
     (if sort_by = ''rent_asc'' then OrderBy RentAmount Asc True
      else if sort_by = ''rent_desc'' then OrderBy RentAmount Desc True
      else if sort_by = ''oldest'' then OrderBy CreatedAt Asc False
      else if sort_by = ''sqft_asc'' then OrderBy SquareFeet Asc True
      else if sort_by = ''sqft_desc'' then OrderBy SquareFeet Desc True
      else OrderBy CreatedAt Desc False)"

definition search_failed :: response where
  "search_failed =
     \<lparr> status = 500,
       json = ErrorMessage ''Internal server error'' ''Failed to search properties'' \<rparr>"

text \<open>The response once both queries of \<^verbatim>\<open>Promise.all\<close> have settled.\<close>

definition search_respond :: "search_query \<Rightarrow> string \<Rightarrow> num \<Rightarrow> num \<Rightarrow> reply \<Rightarrow> reply \<Rightarrow> response" where
  "search_respond v sort_by limit offset searchResult countResult =
     (case (searchResult, countResult) of
        (Inr (Rows_joined rows), Inr (Rows_count counted)) \<Rightarrow>
          (let totalCount = int counted;
               totalPages = math_ceil (of_int totalCount / limit);
               currentPage = math_floor (offset / limit) + 1
           in \<lparr> status = 200,
                json = SearchResults rows
                  \<lparr> total_count = totalCount, total_pages = totalPages,
                    current_page = currentPage, page_limit = limit, page_offset = offset,
                    has_next = (currentPage < totalPages), has_previous = (1 < currentPage) \<rparr>
                  \<lparr> f_city = q_city v, f_state = q_state v, f_zip_code = q_zip_code v,
                    f_rent_range =
                      (if truthy_num (q_min_rent v) \<or> truthy_num (q_max_rent v)
                       then Some (q_min_rent v, q_max_rent v) else None),
                    f_bedrooms_range =
                      (if q_min_bedrooms v \<noteq> None \<or> q_max_bedrooms v \<noteq> None
                       then Some (q_min_bedrooms v, q_max_bedrooms v) else None),
                    f_bathrooms_range =
                      (if truthy_num (q_min_bathrooms v) \<or> truthy_num (q_max_bathrooms v)
                       then Some (q_min_bathrooms v, q_max_bathrooms v) else None),
                    f_sqft_range =
                      (if truthy_num (q_min_sqft v) \<or> truthy_num (q_max_sqft v)
                       then Some (q_min_sqft v, q_max_sqft v) else None),
                    f_landlord_verified = q_landlord_verified v,
                    f_sort_by = sort_by \<rparr> \<rparr>)
      | other \<Rightarrow> search_failed)"

definition searchProperties :: "search_query \<Rightarrow> response prog" where
  "searchProperties req_query =
     (case searchPropertiesSchema req_query of
        Inl err \<Rightarrow>
          Done \<lparr> status = 400, json = ErrorDetails ''Invalid search parameters'' [err] \<rparr>
      | Inr v \<Rightarrow>
          (let sort_by = (case q_sort_by v of None \<Rightarrow> ''newest'' | Some s \<Rightarrow> s);
               limit = (case q_limit v of None \<Rightarrow> 20 | Some l \<Rightarrow> l);
               offset = (case q_offset v of None \<Rightarrow> 0 | Some off \<Rightarrow> off)
           in case build_where v of (whereConditions, filterParams, paramCount) \<Rightarrow>
             (let orderClause = order_clause_of sort_by;
                  limitParam = paramCount + 1;
                  offsetParam = paramCount + 2;
                  queryParams = filterParams @ [Num limit] @ [Num offset]
              in Await (SearchQuery whereConditions orderClause limitParam offsetParam queryParams)
                   (\<lambda>searchResult.
                 Await (CountQuery whereConditions (butlast (butlast queryParams)))
                   (\<lambda>countResult.
                 Done (search_respond v sort_by limit offset searchResult countResult))))))"

subsection \<open>GET /properties/stats\<close>

text \<open>
  JavaScript truthiness of an aggregate as node-postgres delivers it: NULL is \<^verbatim>\<open>null\<close>,
  which is falsy; a number arrives as its decimal text, a non-empty string, which is truthy
  also when the number it spells is 0.
\<close>

definition truthy_text :: "num option \<Rightarrow> bool" where
  "truthy_text v = (v \<noteq> None)"

definition stats_respond :: "stats_row \<Rightarrow> response" where
  "stats_respond stats =
     \<lparr> status = 200,
       json = Statistics
         \<lparr> total_properties = int (st_total_properties stats),
           verified_properties = int (st_verified_properties stats),
           verification_rate =
             (if 0 < st_total_properties stats
              then math_round (of_nat (st_verified_properties stats)
                                 / of_nat (st_total_properties stats) * 100)
              else 0),
           rent_average =
             (if truthy_text (st_avg_rent stats)
              then map_option math_round (st_avg_rent stats) else None),
           rent_minimum = (if truthy_text (st_min_rent stats) then st_min_rent stats else None),
           rent_maximum = (if truthy_text (st_max_rent stats) then st_max_rent stats else None),
           avg_bedrooms =
             (if truthy_text (st_avg_bedrooms stats)
              then map_option (\<lambda>a. of_int (math_round (a * 10)) / 10) (st_avg_bedrooms stats)
              else None),
           avg_bathrooms =
             (if truthy_text (st_avg_bathrooms stats)
              then map_option (\<lambda>a. of_int (math_round (a * 10)) / 10) (st_avg_bathrooms stats)
              else None),
           avg_square_feet =
             (if truthy_text (st_avg_sqft stats)
              then map_option math_round (st_avg_sqft stats) else None),
           cities = int (st_cities_count stats),
           states = int (st_states_count stats) \<rparr> \<rparr>"

definition stats_failed :: response where
  "stats_failed =
     \<lparr> status = 500,
       json = ErrorMessage ''Internal server error'' ''Failed to fetch property statistics'' \<rparr>"

definition propertyStats :: "response prog" where
  "propertyStats =
     Await StatsQuery (\<lambda>result.
       case result of
         Inr (Rows_stats (stats # rest)) \<Rightarrow> Done (stats_respond stats)
       | other \<Rightarrow> Done stats_failed)"

subsection \<open>The other endpoints\<close>

definition health_handler :: "response prog" where
  "health_handler = Done \<lparr> status = 200, json = Message ''OK'' \<rparr>"

definition root_handler :: "response prog" where
  "root_handler = Done \<lparr> status = 200, json = Message ''Landlord Property Service API'' \<rparr>"

definition test_handler :: "response prog" where
  "test_handler = Done \<lparr> status = 200, json = Message ''Property service test endpoint working!'' \<rparr>"

definition setupDatabase :: "response prog" where
  "setupDatabase =
     Await CreateTable (\<lambda>result.
       case result of
         Inl e \<Rightarrow>
           Done \<lparr> status = 500,
                  json = ErrorMessage ''Failed to create properties table'' ''details'' \<rparr>
       | Inr rows \<Rightarrow>
           Done \<lparr> status = 200, json = Message ''Properties table created successfully!'' \<rparr>)"

section \<open>Routing\<close>

text \<open>
  Express tries the routes in the order in which they were registered and hands the request
  to the first one whose method and path match; none of the handlers calls \<^verbatim>\<open>next\<close>,
  so no later route sees the request.  A path pattern is matched segment by segment,
  ignoring case and one trailing slash; \<^verbatim>\<open>:name\<close> matches any non-empty segment.
\<close>

datatype http_method = GET | POST | OTHER

datatype segment = Literal string | Parameter string

datatype handler =
  Health | Root | Test | SetupDatabase | CreateProperty | GetProperty | SearchProperties
  | PropertyStats

record request =
  req_method :: http_method
  req_path :: string
  req_query :: search_query
  req_body :: create_body

fun split_on :: "char \<Rightarrow> string \<Rightarrow> string list" where
  "split_on d [] = [[]]"
| "split_on d (c # cs) =
     (if c = d then [] # split_on d cs
      else (case split_on d cs of [] \<Rightarrow> [[c]] | x # xs \<Rightarrow> (c # x) # xs))"

definition path_segments :: "string \<Rightarrow> string list" where
  "path_segments path =
     (case split_on CHR ''/'' path of
        [] \<Rightarrow> []
      | first # segs \<Rightarrow> if segs \<noteq> [] \<and> last segs = [] then butlast segs else segs)"

fun match_route :: "segment list \<Rightarrow> string list \<Rightarrow> (string \<times> string) list option" where
  "match_route [] [] = Some []"
| "match_route (Literal l # pat) (s # segs) =
     (if lower l = lower s then match_route pat segs else None)"
| "match_route (Parameter name # pat) (s # segs) =
     (if s = [] then None else map_option ((#) (name, s)) (match_route pat segs))"
| "match_route pat segs = None"

text \<open>The \<^verbatim>\<open>app.get\<close> and \<^verbatim>\<open>app.post\<close> calls of the source, from top to bottom.\<close>

definition routes :: "(http_method \<times> segment list \<times> handler) list" where
  "routes =
     [ (GET, [Literal ''health''], Health),
       (GET, [], Root),
       (GET, [Literal ''test''], Test),
       (GET, [Literal ''setup-database''], SetupDatabase),
       (POST, [Literal ''properties''], CreateProperty),
       (GET, [Literal ''properties'', Parameter ''id''], GetProperty),
       (GET, [Literal ''properties''], SearchProperties),
       (GET, [Literal ''properties'', Literal ''stats''], PropertyStats) ]"

fun dispatch :: "(http_method \<times> segment list \<times> handler) list \<Rightarrow> http_method \<Rightarrow> string list \<Rightarrow>
    (handler \<times> (string \<times> string) list) option" where
  "dispatch [] m segs = None"
| "dispatch ((m', pat, h) # rs) m segs =
     (if m' = m
      then (case match_route pat segs of
              Some params \<Rightarrow> Some (h, params)
            | None \<Rightarrow> dispatch rs m segs)
      else dispatch rs m segs)"

definition not_found :: response where
  "not_found = \<lparr> status = 404, json = Message ''Not Found'' \<rparr>"

definition handle :: "request \<Rightarrow> response prog" where
  "handle req =
     (case dispatch routes (req_method req) (path_segments (req_path req)) of
        None \<Rightarrow> Done not_found
      | Some (h, params) \<Rightarrow>
          (case h of
             Health \<Rightarrow> health_handler
           | Root \<Rightarrow> root_handler
           | Test \<Rightarrow> test_handler
           | SetupDatabase \<Rightarrow> setupDatabase
           | CreateProperty \<Rightarrow> createProperty (req_body req)
           | GetProperty \<Rightarrow>
               getProperty (case map_of params ''id'' of None \<Rightarrow> [] | Some v \<Rightarrow> v)
           | SearchProperties \<Rightarrow> searchProperties (req_query req)
           | PropertyStats \<Rightarrow> propertyStats))"

section \<open>Running handlers\<close>

text \<open>A handler run to its response against a database \<open>db\<close>, with no other request between its statements.\<close>

primrec run :: "(query \<Rightarrow> 'st \<Rightarrow> reply \<times> 'st) \<Rightarrow> 'a prog \<Rightarrow> 'st \<Rightarrow> 'a \<times> 'st" where
  "run db (Done r) s = (r, s)"
| "run db (Await q k) s = (case db q s of (answer, s') \<Rightarrow> run db (k answer) s')"

text \<open>
  A database that answers from a script, whatever the statement, and records the statements
  it was sent: any sequence of rows and failures a handler may meet.
\<close>

definition scripted :: "query \<Rightarrow> reply list \<times> query list \<Rightarrow> reply \<times> (reply list \<times> query list)" where
  "scripted q st =
     (case st of (replies, sent) \<Rightarrow>
        (case replies of
           [] \<Rightarrow> (Inl (Error (Some ''ECONNREFUSED'')), ([], sent @ [q]))
         | r # rs \<Rightarrow> (r, (rs, sent @ [q]))))"

text \<open>
  Requests in flight at the same time: one step runs the next statement of one of them
  against the store; a schedule names the request that moves at each step.
\<close>

definition step :: "'a prog \<Rightarrow> store \<Rightarrow> 'a prog \<times> store" where
  "step p s =
     (case p of
        Done r \<Rightarrow> (Done r, s)
      | Await q k \<Rightarrow> (case pg q s of (answer, s') \<Rightarrow> (k answer, s')))"

fun run_schedule :: "nat list \<Rightarrow> 'a prog list \<times> store \<Rightarrow> 'a prog list \<times> store" where
  "run_schedule [] c = c"
| "run_schedule (i # sched) (ps, s) =
     (if i < length ps
      then (case step (ps ! i) s of (p', s') \<Rightarrow> run_schedule sched (ps[i := p'], s'))
      else run_schedule sched (ps, s))"

text \<open>Create requests handled one after the other, each to completion.\<close>

fun serve_creates :: "create_body list \<Rightarrow> store \<Rightarrow> store" where
  "serve_creates [] s = s"
| "serve_creates (b # bs) s = serve_creates bs (snd (run pg (createProperty b) s))"

section \<open>Notions of the specification and example data\<close>

text \<open>The specification's ``numeric string'': a non-empty string of decimal digits.\<close>

definition numeric_string :: "string \<Rightarrow> bool" where
  "numeric_string s = (s \<noteq> [] \<and> list_all is_digit s)"

text \<open>The pagination object of a search response.\<close>

definition pagination_of :: "response \<Rightarrow> pagination option" where
  "pagination_of r = (case json r of SearchResults rows p f \<Rightarrow> Some p | _ \<Rightarrow> None)"

text \<open>The listings of a search response.\<close>

definition listings_of :: "response \<Rightarrow> (property \<times> user) list" where
  "listings_of r = (case json r of SearchResults rows p f \<Rightarrow> rows | _ \<Rightarrow> [])"

text \<open>A number as validation rounds it under \<^verbatim>\<open>precision(1)\<close>.\<close>

definition round1 :: "num \<Rightarrow> num" where
  "round1 x = of_int (math_round (x * 10)) / 10"

text \<open>The statistics object of a statistics response.\<close>

definition statistics_of :: "response \<Rightarrow> statistics option" where
  "statistics_of r = (case json r of Statistics st \<Rightarrow> Some st | _ \<Rightarrow> None)"

text \<open>
  The underlying data of an average: the values of a column that are present, over the
  rows whose rent is present; and their mean.
\<close>

definition column_values :: "(property \<Rightarrow> num option) \<Rightarrow> property list \<Rightarrow> num list" where
  "column_values col ps =
     concat (map (\<lambda>p. if p_rent_amount p = None then []
                       else (case col p of None \<Rightarrow> [] | Some x \<Rightarrow> [x])) ps)"

definition mean :: "num list \<Rightarrow> num" where
  "mean xs = sum_list xs / of_nat (length xs)"

text \<open>
  The invariant of the listings: no two rows have the same address and zip code when both
  are compared without regard to case.
\<close>

definition listing_key :: "property \<Rightarrow> string \<times> string" where
  "listing_key p = (lower (p_address p), lower (p_zip_code p))"

definition no_duplicates :: "property list \<Rightarrow> bool" where
  "no_duplicates ps = distinct (map listing_key ps)"

text \<open>The status of each request in flight that has its response.\<close>

fun statuses :: "response prog list \<Rightarrow> nat option list" where
  "statuses [] = []"
| "statuses (Done r # ps) = Some (status r) # statuses ps"
| "statuses (Await q k # ps) = None # statuses ps"

definition conflict :: "int \<Rightarrow> response" where
  "conflict i =
     \<lparr> status = 409,
       json = Conflict ''Property already exists''
                ''A property with this address and zip code already exists'' i \<rparr>"

text \<open>A query string with no parameter, and the examples of the specification.\<close>

definition no_filters :: search_query where
  "no_filters =
     \<lparr> q_city = None, q_state = None, q_zip_code = None, q_min_rent = None, q_max_rent = None,
       q_min_bedrooms = None, q_max_bedrooms = None, q_min_bathrooms = None,
       q_max_bathrooms = None, q_min_sqft = None, q_max_sqft = None,
       q_landlord_verified = None, q_sort_by = None, q_limit = None, q_offset = None \<rparr>"

definition example_query :: search_query where
  "example_query =
     no_filters\<lparr> q_min_bedrooms := Some 2, q_sort_by := Some ''rent_asc'', q_limit := Some 10,
                 q_offset := Some 25 \<rparr>"

definition reversed_ranges :: search_query where
  "reversed_ranges =
     no_filters\<lparr> q_min_rent := Some 3, q_max_rent := Some 1, q_min_bedrooms := Some 3,
                 q_max_bedrooms := Some 1, q_min_bathrooms := Some 3, q_max_bathrooms := Some 1,
                 q_min_sqft := Some 3, q_max_sqft := Some 1 \<rparr>"

definition studio :: property where
  "studio =
     \<lparr> p_id = 1, p_address = ''123 Main St'', p_city = ''Austin'', p_state = ''TX'',
       p_zip_code = ''78701'', p_rent_amount = Some 900, p_bedrooms = Some 0,
       p_bathrooms = Some 1, p_square_feet = None, p_description = None,
       p_landlord_id = Some 5, p_landlord_verified = False, p_created_at = 0,
       p_updated_at = 0 \<rparr>"

definition example_body :: create_body where
  "example_body =
     \<lparr> b_address = Some ''123 Main St'', b_city = Some ''Austin'', b_state = Some ''TX'',
       b_zip_code = Some ''78701'', b_rent_amount = None, b_bedrooms = None,
       b_bathrooms = None, b_square_feet = None, b_description = None,
       b_landlord_id = Some 5 \<rparr>"

definition shouted_body :: create_body where
  "shouted_body = example_body\<lparr> b_address := Some ''123 MAIN ST'' \<rparr>"

definition big_id_body :: create_body where
  "big_id_body = example_body\<lparr> b_landlord_id := Some 2147483648 \<rparr>"

definition example_landlord :: user where
  "example_landlord =
     \<lparr> u_id = 5, u_role = ''landlord'', u_first_name = ''Ann'', u_last_name = ''Lee'',
       u_email = ''ann@example.com'' \<rparr>"

definition example_tenant :: user where
  "example_tenant =
     \<lparr> u_id = 5, u_role = ''tenant'', u_first_name = ''Tom'', u_last_name = ''Ray'',
       u_email = ''tom@example.com'' \<rparr>"

definition example_store :: store where
  "example_store = \<lparr> users = [example_landlord], properties = [], next_id = 1, now = 0 \<rparr>"

definition example_row :: property where
  "example_row =
     inserted_row example_body ''123 Main St'' ''Austin'' ''TX'' ''78701'' example_store"

definition example_store1 :: store where
  "example_store1 = example_store\<lparr> properties := [example_row], next_id := 2 \<rparr>"

text \<open>
  What the specification asks of a listing that a search returns: each supplied filter holds
  of it, a bound on an absent (NULL) value counting as not met, and an omitted filter asks
  nothing.  The filters are those of the validated request.
\<close>

definition at_least :: "num option \<Rightarrow> num option \<Rightarrow> bool" where
  "at_least bound x =
     (case bound of None \<Rightarrow> True | Some m \<Rightarrow> (case x of None \<Rightarrow> False | Some y \<Rightarrow> m \<le> y))"

definition at_most :: "num option \<Rightarrow> num option \<Rightarrow> bool" where
  "at_most bound x =
     (case bound of None \<Rightarrow> True | Some m \<Rightarrow> (case x of None \<Rightarrow> False | Some y \<Rightarrow> y \<le> m))"

definition satisfies_filters :: "search_query \<Rightarrow> property \<Rightarrow> bool" where
  "satisfies_filters v p =
     ((case q_city v of None \<Rightarrow> True
       | Some c \<Rightarrow> like (lower (''%'' @ c @ ''%'')) (lower (p_city p))) \<and>
      (case q_state v of None \<Rightarrow> True | Some st \<Rightarrow> lower (p_state p) = lower st) \<and>
      (case q_zip_code v of None \<Rightarrow> True | Some z \<Rightarrow> p_zip_code p = z) \<and>
      at_least (q_min_rent v) (p_rent_amount p) \<and>
      at_most (q_max_rent v) (p_rent_amount p) \<and>
      at_least (q_min_bedrooms v) (map_option of_int (p_bedrooms p)) \<and>
      at_most (q_max_bedrooms v) (map_option of_int (p_bedrooms p)) \<and>
      at_least (q_min_bathrooms v) (p_bathrooms p) \<and>
      at_most (q_max_bathrooms v) (p_bathrooms p) \<and>
      at_least (q_min_sqft v) (map_option of_int (p_square_feet p)) \<and>
      at_most (q_max_sqft v) (map_option of_int (p_square_feet p)) \<and>
      (case q_landlord_verified v of None \<Rightarrow> True | Some b \<Rightarrow> p_landlord_verified p = b))"

text \<open>
  For the proofs about the WHERE builder: a state whose conditions use the placeholders
  \<open>1 .. paramCount\<close> in order, what a state and a single block ask of a row, and
  conditions that read only their own placeholder.
\<close>

definition where_ok :: "sql_cond list \<times> val list \<times> nat \<Rightarrow> bool" where
  "where_ok st = (case st of (cs, ps, n) \<Rightarrow> n = length ps \<and> map placeholder cs = [1..<Suc n])"

definition where_holds :: "sql_cond list \<times> val list \<times> nat \<Rightarrow> property \<Rightarrow> bool" where
  "where_holds st p = (case st of (cs, ps, n) \<Rightarrow> list_all (eval_cond ps p) cs)"

definition filter_holds :: "val option \<times> (nat \<Rightarrow> sql_cond) \<Rightarrow> property \<Rightarrow> bool" where
  "filter_holds f p = (case f of (None, cond) \<Rightarrow> True | (Some x, cond) \<Rightarrow> eval_cond [x] p (cond 1))"

definition uniform :: "(nat \<Rightarrow> sql_cond) \<Rightarrow> bool" where
  "uniform cond =
     (\<forall>k. placeholder (cond k) = k \<and>
          (\<forall>ps p. eval_cond ps p (cond k) = eval_cond [param ps k] p (cond 1)))"

definition bathrooms_query :: search_query where
  "bathrooms_query = no_filters\<lparr> q_min_bathrooms := Some (104 / 100) \<rparr>"

definition bathrooms_value :: search_query where
  "bathrooms_value =
     no_filters\<lparr> q_min_bathrooms := Some 1, q_limit := Some 20, q_offset := Some 0 \<rparr>"

definition rent_query :: search_query where
  "rent_query = no_filters\<lparr> q_min_rent := Some 500 \<rparr>"

definition rent_value :: search_query where
  "rent_value = no_filters\<lparr> q_min_rent := Some 500, q_limit := Some 20, q_offset := Some 0 \<rparr>"

definition studio_store :: store where
  "studio_store = example_store\<lparr> properties := [studio] \<rparr>"

section \<open>Properties of the routing table\<close>

lemma match_stats_imp_param:
  assumes m: "match_route [Literal ''properties'', Literal ''stats''] segs = Some ps"
  shows "match_route [Literal ''properties'', Parameter ''id''] segs \<noteq> None"
proof (cases segs)
  case Nil
  with m show ?thesis by simp
next
  case (Cons a rest)
  note outer = Cons
  show ?thesis
  proof (cases rest)
    case Nil
    with outer m show ?thesis by (simp split: if_splits)
  next
    case (Cons b rest')
    with outer m show ?thesis
      by (cases rest') (auto simp: lower_def split: if_splits)
  qed
qed

text \<open>
  Claim C1 (the statistics request is answered 200 by the statistics handler) fails on the
  code: \<^verbatim>\<open>/properties/:id\<close> is registered before \<^verbatim>\<open>/properties/stats\<close>, so a GET of
  \<^verbatim>\<open>/properties/stats\<close> is handled as a lookup of the property \<^verbatim>\<open>stats\<close> and answered
  400 without any statement being sent, whatever the store holds; and no request at all is
  dispatched to the statistics handler.
\<close>

theorem stats_request_shadowed_by_id_route:
  "handle \<lparr> req_method = GET, req_path = ''/properties/stats'', req_query = q, req_body = b \<rparr> =
     Done \<lparr> status = 400,
            json = ErrorMessage ''Invalid property ID'' ''Property ID must be a number'' \<rparr>
   \<and> dispatch routes m segs \<noteq> Some (PropertyStats, ps)"
proof
  show "handle \<lparr> req_method = GET, req_path = ''/properties/stats'', req_query = q, req_body = b \<rparr> =
     Done \<lparr> status = 400,
            json = ErrorMessage ''Invalid property ID'' ''Property ID must be a number'' \<rparr>"
    by (simp add: handle_def routes_def path_segments_def lower_def lower_char_def
          getProperty_def parseInt_def is_space_def digit_val_def)
  show "dispatch routes m segs \<noteq> Some (PropertyStats, ps)"
    using match_stats_imp_param [of segs]
    by (cases m) (auto simp: routes_def split: option.splits if_splits)
qed

section \<open>Validation lemmas\<close>

lemma bind_err_InrE:
  "bind_err m f = Inr v \<Longrightarrow> (\<And>x. m = Inr x \<Longrightarrow> f x = Inr v \<Longrightarrow> P) \<Longrightarrow> P"
  by (cases m) (auto simp: bind_err_def)

lemma joi_number_Inr:
  "joi_number rules anc key w = Inr r \<Longrightarrow>
     (w = None \<and> r = num_default rules \<and> \<not> num_required rules) \<or>
     (\<exists>x. w = Some x \<and> r = Some (convert_num rules x) \<and>
          check_num_rules anc rules (convert_num rules x) = None)"
  by (auto simp: joi_number_def split: option.splits if_splits)

lemma joi_string_Inr:
  "joi_string rules key w = Inr r \<Longrightarrow>
     r = w \<and> (w = None \<longrightarrow> \<not> str_required rules) \<and>
     (\<forall>s. w = Some s \<longrightarrow> (s \<noteq> [] \<or> str_valids rules) \<and> check_str_rules rules s = None)"
  by (auto simp: joi_string_def split: option.splits if_splits)

lemma create_valid_landlord:
  assumes "createPropertySchema b = Inr v"
  shows "\<exists>lid::int. b_landlord_id v = Some (of_int lid) \<and> b_landlord_id b = Some (of_int lid)"
  using assms unfolding createPropertySchema_def
  apply (elim bind_err_InrE)
  apply (drule joi_number_Inr)+
  apply (auto split: if_splits)
  done

lemma create_valid_address:
  assumes "createPropertySchema b = Inr v"
  shows "\<exists>a z. b_address v = Some a \<and> b_zip_code v = Some z \<and> zip_pattern z \<and>
           b_address b = Some a \<and> b_zip_code b = Some z"
  using assms unfolding createPropertySchema_def
  apply (elim bind_err_InrE)
  apply (drule joi_string_Inr)+
  apply (auto split: if_splits)
  done

lemma example_body_valid: "createPropertySchema example_body = Inr example_body"
  by (simp add: createPropertySchema_def example_body_def bind_err_def joi_string_def
        joi_number_def zip_pattern_def is_digit_def)

text \<open>What each key of a validated search request went through.\<close>

lemma searchPropertiesSchema_Inr:
  assumes "searchPropertiesSchema q = Inr v"
  shows "(joi_string [SMin 2, SMax 100] ''city'' (q_city q) = Inr (q_city v)) \<and>
    (joi_string [SMin 2, SMax 50] ''state'' (q_state q) = Inr (q_state v)) \<and>
    (joi_string [SPattern zip_pattern] ''zip_code'' (q_zip_code q) = Inr (q_zip_code v)) \<and>
    (joi_number [NPositive, NMax (Lit 50000)] [] ''min_rent'' (q_min_rent q) = Inr (q_min_rent v)) \<and>
    (joi_number [NPositive, NMax (Lit 50000), NGreater (Ref ''min_rent'')]
           [(''min_rent'', q_min_rent v)] ''max_rent'' (q_max_rent q) = Inr (q_max_rent v)) \<and>
    (joi_number [NInteger, NMin (Lit 0), NMax (Lit 20)] [] ''min_bedrooms''
           (q_min_bedrooms q) = Inr (q_min_bedrooms v)) \<and>
    (joi_number [NInteger, NMin (Lit 0), NMax (Lit 20), NMin (Ref ''min_bedrooms'')]
           [(''min_bedrooms'', q_min_bedrooms v)] ''max_bedrooms''
           (q_max_bedrooms q) = Inr (q_max_bedrooms v)) \<and>
    (joi_number [NPositive, NPrecision 1, NMax (Lit 20)] [] ''min_bathrooms''
           (q_min_bathrooms q) = Inr (q_min_bathrooms v)) \<and>
    (joi_number [NPositive, NPrecision 1, NMax (Lit 20), NMin (Ref ''min_bathrooms'')]
           [(''min_bathrooms'', q_min_bathrooms v)] ''max_bathrooms''
           (q_max_bathrooms q) = Inr (q_max_bathrooms v)) \<and>
    (joi_number [NInteger, NPositive, NMax (Lit 50000)] [] ''min_sqft''
           (q_min_sqft q) = Inr (q_min_sqft v)) \<and>
    (joi_number [NInteger, NPositive, NMax (Lit 50000), NMin (Ref ''min_sqft'')]
           [(''min_sqft'', q_min_sqft v)] ''max_sqft'' (q_max_sqft q) = Inr (q_max_sqft v)) \<and>
    (q_landlord_verified v = q_landlord_verified q) \<and>
    (joi_string [SValid [''rent_asc'', ''rent_desc'', ''newest'', ''oldest'',
                             ''sqft_asc'', ''sqft_desc'']] ''sort_by''
           (q_sort_by q) = Inr (q_sort_by v)) \<and>
    (joi_number [NInteger, NMin (Lit 1), NMax (Lit 100), NDefault 20] [] ''limit''
           (q_limit q) = Inr (q_limit v)) \<and>
    (joi_number [NInteger, NMin (Lit 0), NDefault 0] [] ''offset''
           (q_offset q) = Inr (q_offset v))"
  using assms unfolding searchPropertiesSchema_def
  apply (elim bind_err_InrE)
  apply (auto simp: joi_boolean_def)
  done

lemma joi_limit_iff:
  "joi_number [NInteger, NMin (Lit 1), NMax (Lit 100), NDefault 20] [] k w = Inr r \<longleftrightarrow>
     (w = None \<and> r = Some 20) \<or>
     (\<exists>x. w = Some x \<and> r = Some x \<and> x = of_int \<lfloor>x\<rfloor> \<and> 1 \<le> x \<and> x \<le> 100)"
  by (auto simp: joi_number_def split: option.splits)

lemma joi_offset_iff:
  "joi_number [NInteger, NMin (Lit 0), NDefault 0] [] k w = Inr r \<longleftrightarrow>
     (w = None \<and> r = Some 0) \<or> (\<exists>x. w = Some x \<and> r = Some x \<and> x = of_int \<lfloor>x\<rfloor> \<and> 0 \<le> x)"
  by (auto simp: joi_number_def split: option.splits)

lemma nat_num: "x = of_int \<lfloor>x\<rfloor> \<Longrightarrow> 0 \<le> x \<Longrightarrow> \<exists>n::nat. (x::rat) = of_nat n"
  by (metis of_int_of_nat_eq of_nat_nat zero_le_floor)

lemma search_valid_page:
  assumes "searchPropertiesSchema q = Inr v"
  shows "\<exists>L K::nat. 1 \<le> L \<and> L \<le> 100 \<and> q_limit v = Some (of_nat L) \<and>
           q_offset v = Some (of_nat K)"
proof -
  have l: "joi_number [NInteger, NMin (Lit 1), NMax (Lit 100), NDefault 20] [] ''limit''
           (q_limit q) = Inr (q_limit v)"
    and o: "joi_number [NInteger, NMin (Lit 0), NDefault 0] [] ''offset''
           (q_offset q) = Inr (q_offset v)"
    using searchPropertiesSchema_Inr[OF assms] by blast+
  from l obtain x where x: "q_limit v = Some x" "x = of_int \<lfloor>x\<rfloor>" "1 \<le> x" "x \<le> 100"
    unfolding joi_limit_iff by auto
  from o obtain y where y: "q_offset v = Some y" "y = of_int \<lfloor>y\<rfloor>" "0 \<le> y"
    unfolding joi_offset_iff by auto
  obtain L where L: "x = of_nat L" using nat_num[OF x(2)] x(3) by auto
  obtain K where K: "y = of_nat K" using nat_num[OF y(2,3)] by auto
  have "1 \<le> L" "L \<le> 100" using x(3,4) L by auto
  then show ?thesis using x(1) y(1) L K by blast
qed

lemma example_query_valid:
  "searchPropertiesSchema example_query = Inr example_query"
  by (simp add: searchPropertiesSchema_def example_query_def no_filters_def bind_err_def
        joi_string_def joi_number_def joi_boolean_def)

section \<open>Pagination\<close>

lemma search_run_scripted:
  assumes "searchPropertiesSchema q = Inr v" "q_limit v = Some l" "q_offset v = Some off"
  shows "fst (run scripted (searchProperties q) ([r1, r2], [])) =
         search_respond v (case q_sort_by v of None \<Rightarrow> ''newest'' | Some s \<Rightarrow> s) l off r1 r2"
  using assms
  by (cases "build_where v") (simp add: searchProperties_def scripted_def Let_def)

lemma pages_exact:
  assumes "0 < L"
  shows "int n \<le> \<lceil>rat_of_nat n / rat_of_nat L\<rceil> * int L"
    and "(\<lceil>rat_of_nat n / rat_of_nat L\<rceil> - 1) * int L < int n"
proof -
  let ?x = "rat_of_nat n / rat_of_nat L"
  have pos: "0 < rat_of_nat L" using assms by simp
  have "?x \<le> of_int \<lceil>?x\<rceil>" by (rule le_of_int_ceiling)
  then have "rat_of_nat n \<le> of_int \<lceil>?x\<rceil> * rat_of_nat L"
    unfolding pos_divide_le_eq[OF pos] .
  then have "rat_of_int (int n) \<le> rat_of_int (\<lceil>?x\<rceil> * int L)" by simp
  then show "int n \<le> \<lceil>?x\<rceil> * int L" by (simp only: of_int_le_iff)
  have "of_int \<lceil>?x\<rceil> - 1 < ?x" using ceiling_correct[of ?x] by simp
  then have "(of_int \<lceil>?x\<rceil> - 1) * rat_of_nat L < rat_of_nat n"
    unfolding pos_less_divide_eq[OF pos] .
  then have "rat_of_int ((\<lceil>?x\<rceil> - 1) * int L) < rat_of_int (int n)" by simp
  then show "(\<lceil>?x\<rceil> - 1) * int L < int n" by (simp only: of_int_less_iff)
qed

lemma floor_nat_div: "\<lfloor>rat_of_nat n / rat_of_nat L\<rfloor> = int (n div L)"
  by (simp add: floor_divide_of_nat_eq)

lemma next_exact:
  assumes "0 < L"
  shows "(c < \<lceil>rat_of_nat n / rat_of_nat L\<rceil>) = (c * int L < int n)"
proof -
  have pos: "0 < rat_of_nat L" using assms by simp
  have "(c < \<lceil>rat_of_nat n / rat_of_nat L\<rceil>) = (of_int c < rat_of_nat n / rat_of_nat L)"
    by (rule less_ceiling_iff)
  also have "\<dots> = (of_int c * rat_of_nat L < rat_of_nat n)"
    by (rule pos_less_divide_eq[OF pos])
  also have "\<dots> = (rat_of_int (c * int L) < rat_of_int (int n))" by simp
  also have "\<dots> = (c * int L < int n)" by (simp only: of_int_less_iff)
  finally show ?thesis .
qed

text \<open>
  Claim C3.  For a search request that passes validation, the validated limit \<open>L\<close> is a
  whole number from 1 to 100 and the offset \<open>K\<close> a whole number from 0; whatever rows and
  whatever count \<open>n\<close> the two queries return, the response carries
  \<open>total_pages = \<lceil>n / L\<rceil>\<close>, which is the least number of pages of \<open>L\<close> rows that hold
  \<open>n\<close> rows, and \<open>current_page = \<lfloor>K / L\<rfloor> + 1\<close>.
\<close>

theorem search_pagination_pages:
  assumes "searchPropertiesSchema q = Inr v"
  shows "\<exists>L K p. 1 \<le> L \<and> L \<le> 100 \<and> q_limit v = Some (of_nat L) \<and>
     q_offset v = Some (of_nat K) \<and>
     pagination_of (fst (run scripted (searchProperties q)
        ([Inr (Rows_joined rows), Inr (Rows_count n)], []))) = Some p \<and>
     total_count p = int n \<and>
     total_pages p = \<lceil>rat_of_nat n / rat_of_nat L\<rceil> \<and>
     int n \<le> total_pages p * int L \<and> (total_pages p - 1) * int L < int n \<and>
     current_page p = \<lfloor>rat_of_nat K / rat_of_nat L\<rfloor> + 1 \<and>
     current_page p = int (K div L) + 1"
proof -
  obtain L K :: nat where LK: "1 \<le> L" "L \<le> 100" "q_limit v = Some (of_nat L)"
      "q_offset v = Some (of_nat K)"
    using search_valid_page[OF assms] by blast
  let ?r = "fst (run scripted (searchProperties q)
              ([Inr (Rows_joined rows), Inr (Rows_count n)], []))"
  have r: "?r = search_respond v (case q_sort_by v of None \<Rightarrow> ''newest'' | Some s \<Rightarrow> s)
                  (of_nat L) (of_nat K) (Inr (Rows_joined rows)) (Inr (Rows_count n))"
    by (rule search_run_scripted[OF assms LK(3,4)])
  obtain p where p: "pagination_of ?r = Some p" "total_count p = int n"
     "total_pages p = \<lceil>rat_of_nat n / rat_of_nat L\<rceil>"
     "current_page p = \<lfloor>rat_of_nat K / rat_of_nat L\<rfloor> + 1"
    unfolding r
    by (simp add: search_respond_def pagination_of_def math_ceil_def math_floor_def Let_def)
  have L0: "0 < L" using LK(1) by simp
  show ?thesis
    using LK p pages_exact[OF L0, of n] floor_nat_div[of K L]
    by (intro exI[of _ L] exI[of _ K] exI[of _ p]) simp
qed

theorem search_pagination_pages_witness:
  "searchPropertiesSchema example_query = Inr example_query \<and>
   (\<exists>L K p. 1 \<le> L \<and> L \<le> 100 \<and>
     q_limit example_query = Some (of_nat L) \<and>
     q_offset example_query = Some (of_nat K) \<and>
     pagination_of (fst (run scripted (searchProperties example_query)
        ([Inr (Rows_joined []), Inr (Rows_count 42)], []))) = Some p \<and>
     total_count p = int 42 \<and>
     total_pages p = \<lceil>rat_of_nat 42 / rat_of_nat L\<rceil> \<and>
     int 42 \<le> total_pages p * int L \<and> (total_pages p - 1) * int L < int 42 \<and>
     current_page p = \<lfloor>rat_of_nat K / rat_of_nat L\<rfloor> + 1 \<and>
     current_page p = int (K div L) + 1)"
  using search_pagination_pages [OF example_query_valid, of "[]" 42] example_query_valid
  by simp

text \<open>
  Claim C10.  In the same response \<open>has_next\<close> is \<open>current_page < total_pages\<close> and
  \<open>has_previous\<close> is \<open>1 < current_page\<close>; so, with limit \<open>L\<close>, offset \<open>K\<close> and
  count \<open>n\<close>, there is a next page exactly when \<open>(K div L + 1) * L < n\<close> (the count exceeds
  the end of the page numbered \<open>current_page\<close>, which starts at the multiple of the limit at
  or below the offset), and a previous page exactly when the offset is at least the limit.
\<close>

theorem search_pagination_flags:
  assumes "searchPropertiesSchema q = Inr v"
  shows "\<exists>L K p. q_limit v = Some (of_nat L) \<and> q_offset v = Some (of_nat K) \<and>
     pagination_of (fst (run scripted (searchProperties q)
        ([Inr (Rows_joined rows), Inr (Rows_count n)], []))) = Some p \<and>
     has_next p = (current_page p < total_pages p) \<and>
     has_previous p = (1 < current_page p) \<and>
     has_next p = ((K div L + 1) * L < n) \<and>
     has_previous p = (L \<le> K)"
proof -
  obtain L K :: nat where LK: "1 \<le> L" "L \<le> 100" "q_limit v = Some (of_nat L)"
      "q_offset v = Some (of_nat K)"
    using search_valid_page[OF assms] by blast
  let ?r = "fst (run scripted (searchProperties q)
              ([Inr (Rows_joined rows), Inr (Rows_count n)], []))"
  have r: "?r = search_respond v (case q_sort_by v of None \<Rightarrow> ''newest'' | Some s \<Rightarrow> s)
                  (of_nat L) (of_nat K) (Inr (Rows_joined rows)) (Inr (Rows_count n))"
    by (rule search_run_scripted[OF assms LK(3,4)])
  obtain p where p: "pagination_of ?r = Some p"
     "total_pages p = \<lceil>rat_of_nat n / rat_of_nat L\<rceil>"
     "current_page p = \<lfloor>rat_of_nat K / rat_of_nat L\<rfloor> + 1"
     "has_next p = (current_page p < total_pages p)"
     "has_previous p = (1 < current_page p)"
    unfolding r
    by (simp add: search_respond_def pagination_of_def math_ceil_def math_floor_def Let_def)
  have L0: "0 < L" using LK(1) by simp
  have cp: "current_page p = int (K div L) + 1" using p(3) by (simp add: floor_nat_div)
  have nx: "has_next p = ((K div L + 1) * L < n)"
  proof -
    have "has_next p = ((int (K div L) + 1) * int L < int n)"
      unfolding p(4) cp p(2) by (rule next_exact[OF L0])
    also have "\<dots> = (int ((K div L + 1) * L) < int n)" by (simp add: algebra_simps)
    also have "\<dots> = ((K div L + 1) * L < n)" by (simp only: of_nat_less_iff)
    finally show ?thesis .
  qed
  have pv: "has_previous p = (L \<le> K)"
  proof -
    have "has_previous p = (0 < K div L)" unfolding p(5) cp by simp
    also have "\<dots> = (L \<le> K)" using L0 by (simp add: div_greater_zero_iff)
    finally show ?thesis .
  qed
  show ?thesis using LK p nx pv
    by (intro exI[of _ L] exI[of _ K] exI[of _ p]) simp
qed

theorem search_pagination_flags_witness:
  "searchPropertiesSchema example_query = Inr example_query \<and>
   (\<exists>L K p. q_limit example_query = Some (of_nat L) \<and>
     q_offset example_query = Some (of_nat K) \<and>
     pagination_of (fst (run scripted (searchProperties example_query)
        ([Inr (Rows_joined []), Inr (Rows_count 42)], []))) = Some p \<and>
     has_next p = (current_page p < total_pages p) \<and>
     has_previous p = (1 < current_page p) \<and>
     has_next p = ((K div L + 1) * L < 42) \<and>
     has_previous p = (L \<le> K))"
  using search_pagination_flags [OF example_query_valid, of "[]" 42] example_query_valid
  by simp

section \<open>Fetching one property\<close>

lemma digit_facts:
  assumes "is_digit c"
  shows "\<not> is_space c" "c \<noteq> CHR ''-''" "c \<noteq> CHR ''+''" "c \<noteq> CHR ''x''" "c \<noteq> CHR ''X''"
    "digit_val 10 c \<noteq> None"
  using assms by (auto simp: is_digit_def is_space_def digit_val_def Let_def)

lemma numeric_string_parses:
  assumes "numeric_string s"
  shows "parseInt s \<noteq> None"
proof -
  obtain c cs where s: "s = c # cs" and c: "is_digit c" and cs: "list_all is_digit cs"
    using assms by (cases s) (auto simp: numeric_string_def)
  have nohex: "take 2 s \<noteq> ''0x''" "take 2 s \<noteq> ''0X''"
    using s cs digit_facts(4,5) by (cases cs; auto)+
  obtain v where v: "digit_val 10 c = Some v" using digit_facts(6)[OF c] by auto
  show ?thesis
    using s c nohex v digit_facts(1-3)[OF c]
    by (auto simp add: parseInt_def Let_def)
qed

text \<open>
  Claim C7 as stated (every parameter that is not a numeric string is answered 400) fails:
  \<^verbatim>\<open>parseInt\<close> reads the leading digits of \<^verbatim>\<open>12abc\<close>, so the handler looks property 12
  up in the store and answers 404 (or 200) instead.
\<close>

theorem getProperty_non_numeric_counterexample:
  "\<not> numeric_string ''12abc'' \<and>
   run scripted (getProperty ''12abc'') ([Inr (Rows_joined [])], []) =
     (\<lparr> status = 404,
        json = ErrorMessage ''Property not found'' ''No property found with the specified ID'' \<rparr>,
      ([], [SelectProperty 12]))"
  by (simp add: numeric_string_def is_digit_def getProperty_def parseInt_def is_space_def
        digit_val_def scripted_def)

text \<open>
  Claim C7, amended.  When \<^verbatim>\<open>parseInt\<close> reads no integer from the path parameter the
  response is 400 and no statement is sent to the store, whatever the store would answer;
  when it reads the integer \<open>n\<close> the handler sends exactly the lookup of property \<open>n\<close>; and
  every numeric string is read as an integer.
\<close>

theorem getProperty_parseInt:
  "(parseInt p = None \<longrightarrow>
      run scripted (getProperty p) (replies, []) =
        (\<lparr> status = 400,
           json = ErrorMessage ''Invalid property ID'' ''Property ID must be a number'' \<rparr>,
         (replies, []))) \<and>
   (\<forall>n. parseInt p = Some n \<longrightarrow>
      snd (snd (run scripted (getProperty p) (replies, []))) = [SelectProperty n]) \<and>
   (numeric_string p \<longrightarrow> parseInt p \<noteq> None)"
proof (intro conjI impI allI)
  assume "parseInt p = None"
  then show "run scripted (getProperty p) (replies, []) =
        (\<lparr> status = 400,
           json = ErrorMessage ''Invalid property ID'' ''Property ID must be a number'' \<rparr>,
         (replies, []))"
    by (simp add: getProperty_def)
next
  fix n assume "parseInt p = Some n"
  then show "snd (snd (run scripted (getProperty p) (replies, []))) = [SelectProperty n]"
    by (cases replies)
      (auto simp: getProperty_def scripted_def split: sum.splits result.splits list.splits)
next
  assume "numeric_string p"
  then show "parseInt p \<noteq> None" by (rule numeric_string_parses)
qed

theorem getProperty_parseInt_witness:
  "parseInt ''stats'' = None \<and>
   run scripted (getProperty ''stats'') ([], []) =
     (\<lparr> status = 400,
        json = ErrorMessage ''Invalid property ID'' ''Property ID must be a number'' \<rparr>,
      ([], [])) \<and>
   parseInt ''42'' = Some 42 \<and>
   snd (snd (run scripted (getProperty ''42'') ([], []))) = [SelectProperty 42] \<and>
   numeric_string ''42'' \<and> parseInt ''42'' \<noteq> None"
proof -
  have a: "parseInt ''stats'' = None"
    by (simp add: parseInt_def is_space_def digit_val_def)
  have b: "parseInt ''42'' = Some 42"
    by (simp add: parseInt_def is_space_def digit_val_def)
  have c: "numeric_string ''42''"
    by (simp add: numeric_string_def is_digit_def)
  show ?thesis
    using a b c getProperty_parseInt [of "''stats''" "[]"] getProperty_parseInt [of "''42''" "[]"]
    by simp
qed

section \<open>Creating a property\<close>

lemma filter_find_Nil: "(filter P xs = []) = (find P xs = None)"
  by (induction xs) auto

lemma filter_find_Cons: "find P xs = Some y \<Longrightarrow> \<exists>ys. filter P xs = y # ys"
  by (induction xs) (auto split: if_splits)

lemma user_id_range: "- 2147483648 \<le> user_id u" "user_id u \<le> 2147483647"
  using sint_ge[of "u_id u"] sint_lt[of "u_id u"] by (simp_all add: user_id_def)

lemma int4_error_of_int:
  "int4_error (of_int i) =
     (if 10 ^ 21 \<le> \<bar>i\<bar> then Some invalid_text_representation
      else if i < - 2147483648 \<or> 2147483647 < i then Some numeric_value_out_of_range
      else None)"
proof -
  have a: "(10 ^ 21 \<le> \<bar>rat_of_int i\<bar>) = (10 ^ 21 \<le> \<bar>i\<bar>)"
  proof -
    have "(rat_of_int (10 ^ 21) \<le> rat_of_int \<bar>i\<bar>) = (10 ^ 21 \<le> \<bar>i\<bar>)"
      by (rule of_int_le_iff)
    then show ?thesis by simp
  qed
  have b: "(rat_of_int i < - 2147483648) = (i < - 2147483648)"
  proof -
    have "(rat_of_int i < rat_of_int (- 2147483648)) = (i < - 2147483648)"
      by (rule of_int_less_iff)
    then show ?thesis by simp
  qed
  have c: "(2147483647 < rat_of_int i) = (2147483647 < i)"
    by simp
  show ?thesis unfolding int4_error_def a b c by simp
qed

lemma int4_in_range:
  assumes "- 2147483648 \<le> lid" "lid \<le> 2147483647"
  shows "int4_error (of_int lid) = None"
  unfolding int4_error_of_int using assms by simp

lemma int4_out_of_range:
  assumes "lid < - 2147483648 \<or> 2147483647 < lid"
  shows "\<exists>c. int4_error (of_int lid) = Some (Error (Some c)) \<and> c \<noteq> ''23503''"
  unfolding int4_error_of_int using assms
  by (auto simp: numeric_value_out_of_range_def invalid_text_representation_def)

lemma find_holds: "find P xs = Some y \<Longrightarrow> P y"
  by (induction xs) (auto split: if_splits)

lemma create_landlord_missing:
  assumes "createPropertySchema b = Inr v" "b_landlord_id v = Some (of_int lid)"
    "- 2147483648 \<le> lid" "lid \<le> 2147483647"
    "find (\<lambda>u. user_id u = lid) (users s) = None"
  shows "run pg (createProperty b) s =
     (\<lparr> status = 404,
        json = ErrorMessage ''Landlord not found'' ''The specified landlord_id does not exist'' \<rparr>,
      s)"
proof -
  have e: "int4_error (rat_of_int lid) = None"
    by (rule int4_in_range[OF assms(3,4)])
  have "filter (\<lambda>u. Some (rat_of_int (user_id u)) = Some (of_int lid)) (users s) = []"
    using assms(5) by (simp add: filter_find_Nil)
  then show ?thesis using assms(1,2) e
    by (simp add: createProperty_def pg_def create_landlord_checked_def)
qed

lemma create_not_landlord:
  assumes "createPropertySchema b = Inr v" "b_landlord_id v = Some (of_int lid)"
    "find (\<lambda>u. user_id u = lid) (users s) = Some u" "u_role u \<noteq> ''landlord''"
  shows "run pg (createProperty b) s =
     (\<lparr> status = 403,
        json = ErrorMessage ''Invalid user role''
                 ''Only users with landlord role can create properties'' \<rparr>,
      s)"
proof -
  have "user_id u = lid" using find_holds[OF assms(3)] .
  then have e: "int4_error (rat_of_int lid) = None"
    using int4_in_range[OF user_id_range[of u]] by simp
  obtain us where "filter (\<lambda>u. Some (rat_of_int (user_id u)) = Some (of_int lid)) (users s) = u # us"
    using filter_find_Cons[OF assms(3)] by auto
  then show ?thesis using assms(1,2,4) e
    by (simp add: createProperty_def pg_def create_landlord_checked_def)
qed

lemma create_out_of_range:
  assumes "createPropertySchema b = Inr v" "b_landlord_id v = Some (of_int lid)"
    "lid < - 2147483648 \<or> 2147483647 < lid"
  shows "run pg (createProperty b) s =
     (\<lparr> status = 500,
        json = ErrorMessage ''Internal server error'' ''Failed to create property'' \<rparr>, s)"
proof -
  obtain c where c: "int4_error (rat_of_int lid) = Some (Error (Some c))" "c \<noteq> ''23503''"
    using int4_out_of_range[OF assms(3)] by blast
  show ?thesis using assms(1,2) c
    by (simp add: createProperty_def pg_def create_landlord_checked_def create_catch_def)
qed

lemma big_id_body_valid: "createPropertySchema big_id_body = Inr big_id_body"
  by (simp add: createPropertySchema_def big_id_body_def example_body_def bind_err_def
        joi_string_def joi_number_def zip_pattern_def is_digit_def)

text \<open>
  Claim C6 as stated (a validated request whose landlord id matches no users row is answered
  404) fails for an id beyond the INTEGER range: validation puts no bound on
  \<^verbatim>\<open>landlord_id\<close>, the store refuses \<^verbatim>\<open>2147483648\<close> as the parameter of the lookup, and
  the \<^verbatim>\<open>catch\<close> block answers 500.
\<close>

theorem create_big_landlord_id_counterexample:
  "createPropertySchema big_id_body = Inr big_id_body \<and>
   b_landlord_id big_id_body = Some 2147483648 \<and>
   find (\<lambda>u. user_id u = 2147483648) (users example_store) = None \<and>
   run pg (createProperty big_id_body) example_store =
     (\<lparr> status = 500,
        json = ErrorMessage ''Internal server error'' ''Failed to create property'' \<rparr>,
      example_store)"
proof -
  have l: "b_landlord_id big_id_body = Some (rat_of_int 2147483648)"
    by (simp add: big_id_body_def)
  have n: "find (\<lambda>u. user_id u = 2147483648) (users example_store) = None"
    by (simp add: example_store_def example_landlord_def user_id_def)
  have "run pg (createProperty big_id_body) example_store =
     (\<lparr> status = 500,
        json = ErrorMessage ''Internal server error'' ''Failed to create property'' \<rparr>,
      example_store)"
    by (rule create_out_of_range[OF big_id_body_valid l]) simp
  then show ?thesis using big_id_body_valid l n by simp
qed

text \<open>
  Claim C6, amended.  A create request that passes validation carries a whole-number
  landlord id.  When that id is within the INTEGER range and the \<^verbatim>\<open>users\<close> table has no
  row with it, the response is 404; when the row with that id has a role other than
  \<^verbatim>\<open>landlord\<close> the response is 403; in both cases the store is left as it was (nothing is
  inserted), whatever else the store and the request hold.
\<close>

theorem create_landlord_check_short_circuits:
  assumes "createPropertySchema b = Inr v"
  shows "\<exists>lid. b_landlord_id v = Some (of_int lid) \<and>
     (- 2147483648 \<le> lid \<and> lid \<le> 2147483647 \<and>
      find (\<lambda>u. user_id u = lid) (users s) = None \<longrightarrow>
        run pg (createProperty b) s =
          (\<lparr> status = 404,
             json = ErrorMessage ''Landlord not found''
                      ''The specified landlord_id does not exist'' \<rparr>, s)) \<and>
     (\<forall>u. find (\<lambda>u. user_id u = lid) (users s) = Some u \<and> u_role u \<noteq> ''landlord'' \<longrightarrow>
        run pg (createProperty b) s =
          (\<lparr> status = 403,
             json = ErrorMessage ''Invalid user role''
                      ''Only users with landlord role can create properties'' \<rparr>, s))"
proof -
  obtain lid where lid: "b_landlord_id v = Some (of_int lid)"
    using create_valid_landlord[OF assms] by blast
  show ?thesis
    using lid create_landlord_missing[OF assms lid] create_not_landlord[OF assms lid]
    by blast
qed

theorem create_landlord_check_short_circuits_witness:
  "createPropertySchema example_body = Inr example_body \<and>
   b_landlord_id example_body = Some (of_int 5) \<and>
   (- 2147483648 :: int) \<le> 5 \<and> (5 :: int) \<le> 2147483647 \<and>
   find (\<lambda>u. user_id u = 5) (users (example_store\<lparr>users := []\<rparr>)) = None \<and>
   run pg (createProperty example_body) (example_store\<lparr>users := []\<rparr>) =
     (\<lparr> status = 404,
        json = ErrorMessage ''Landlord not found'' ''The specified landlord_id does not exist'' \<rparr>,
      example_store\<lparr>users := []\<rparr>) \<and>
   find (\<lambda>u. user_id u = 5) (users (example_store\<lparr>users := [example_tenant]\<rparr>)) =
     Some example_tenant \<and>
   u_role example_tenant \<noteq> ''landlord'' \<and>
   run pg (createProperty example_body) (example_store\<lparr>users := [example_tenant]\<rparr>) =
     (\<lparr> status = 403,
        json = ErrorMessage ''Invalid user role''
                 ''Only users with landlord role can create properties'' \<rparr>,
      example_store\<lparr>users := [example_tenant]\<rparr>)"
proof -
  have l: "b_landlord_id example_body = Some (of_int 5)"
    by (simp add: example_body_def)
  have n: "find (\<lambda>u. user_id u = 5) (users (example_store\<lparr>users := []\<rparr>)) = None"
    by simp
  have t: "find (\<lambda>u. user_id u = 5) (users (example_store\<lparr>users := [example_tenant]\<rparr>)) =
     Some example_tenant" "u_role example_tenant \<noteq> ''landlord''"
    by (simp_all add: example_tenant_def user_id_def)
  from create_landlord_check_short_circuits [OF example_body_valid,
      of "example_store\<lparr>users := []\<rparr>"]
  have a: "run pg (createProperty example_body) (example_store\<lparr>users := []\<rparr>) =
     (\<lparr> status = 404,
        json = ErrorMessage ''Landlord not found'' ''The specified landlord_id does not exist'' \<rparr>,
      example_store\<lparr>users := []\<rparr>)"
    using l n by auto
  from create_landlord_check_short_circuits [OF example_body_valid,
      of "example_store\<lparr>users := [example_tenant]\<rparr>"]
  have b: "run pg (createProperty example_body) (example_store\<lparr>users := [example_tenant]\<rparr>) =
     (\<lparr> status = 403,
        json = ErrorMessage ''Invalid user role''
                 ''Only users with landlord role can create properties'' \<rparr>,
      example_store\<lparr>users := [example_tenant]\<rparr>)"
    using l t by auto
  show ?thesis using example_body_valid l n t a b by simp
qed

text \<open>
  Claim C8.  When the landlord check finds a landlord and the duplicate check finds no row,
  and the INSERT then fails with an error whose code is \<^verbatim>\<open>23503\<close> (foreign-key violation),
  the response is 400 with error \<^verbatim>\<open>Invalid landlord_id\<close>; when it fails with any other code
  or with none the response is 500.  A failure of either earlier statement with a code other
  than \<^verbatim>\<open>23503\<close> is answered 500 as well.  (The lemma after the theorem runs
  the race against the store: the landlord's row is gone when the INSERT is sent.)
\<close>

theorem create_store_failure_mapping:
  assumes "createPropertySchema b = Inr v" and "u_role u = ''landlord''"
  shows "run scripted (createProperty b)
           ([Inr (Rows_users (u # us)), Inr (Rows_ids []), Inl (Error code)], []) =
         (if code = Some ''23503''
          then \<lparr> status = 400,
                 json = ErrorMessage ''Invalid landlord_id''
                          ''The specified landlord does not exist'' \<rparr>
          else \<lparr> status = 500,
                 json = ErrorMessage ''Internal server error'' ''Failed to create property'' \<rparr>,
          ([], [SelectUser (b_landlord_id v), SelectDuplicate (b_address v) (b_zip_code v),
                InsertProperty v])) \<and>
     (code \<noteq> Some ''23503'' \<longrightarrow>
        fst (run scripted (createProperty b) (Inl (Error code) # rest, [])) =
          \<lparr> status = 500,
            json = ErrorMessage ''Internal server error'' ''Failed to create property'' \<rparr> \<and>
        fst (run scripted (createProperty b)
               (Inr (Rows_users (u # us)) # Inl (Error code) # rest, [])) =
          \<lparr> status = 500,
            json = ErrorMessage ''Internal server error'' ''Failed to create property'' \<rparr>)"
  using assms
  by (simp add: createProperty_def scripted_def create_landlord_checked_def
        create_duplicate_checked_def create_inserted_def create_catch_def)

lemma create_race_foreign_key:
  "step (create_duplicate_checked example_body (Inr (Rows_ids [])))
        (example_store\<lparr>users := []\<rparr>) =
     (Done \<lparr> status = 400,
             json = ErrorMessage ''Invalid landlord_id''
                      ''The specified landlord does not exist'' \<rparr>,
      example_store\<lparr>users := [], next_id := 2\<rparr>)"
  by (simp add: create_duplicate_checked_def step_def pg_def example_body_def example_store_def
        create_inserted_def create_catch_def foreign_key_violation_def int4_error_def)

theorem create_store_failure_mapping_witness:
  "createPropertySchema example_body = Inr example_body \<and>
   u_role example_landlord = ''landlord'' \<and>
   fst (run scripted (createProperty example_body)
          ([Inr (Rows_users [example_landlord]), Inr (Rows_ids []),
            Inl (Error (Some ''23503''))], [])) =
     \<lparr> status = 400,
       json = ErrorMessage ''Invalid landlord_id'' ''The specified landlord does not exist'' \<rparr> \<and>
   fst (run scripted (createProperty example_body)
          ([Inr (Rows_users [example_landlord]), Inr (Rows_ids []),
            Inl (Error (Some ''57014''))], [])) =
     \<lparr> status = 500,
       json = ErrorMessage ''Internal server error'' ''Failed to create property'' \<rparr>"
proof -
  have r: "u_role example_landlord = ''landlord''"
    by (simp add: example_landlord_def)
  show ?thesis
    using example_body_valid r
      create_store_failure_mapping [OF example_body_valid r, of "[]" "Some ''23503''" "[]"]
      create_store_failure_mapping [OF example_body_valid r, of "[]" "Some ''57014''" "[]"]
    by simp
qed

section \<open>Validation of the range pairs\<close>

lemma search_invalid_400:
  assumes "\<And>v. searchPropertiesSchema q \<noteq> Inr v"
  shows "\<exists>e. searchProperties q =
     Done \<lparr> status = 400, json = ErrorDetails ''Invalid search parameters'' [e] \<rparr>"
  using assms by (cases "searchPropertiesSchema q") (auto simp: searchProperties_def)

lemma joi_number_Some:
  "joi_number rules anc k (Some a) = Inr r \<Longrightarrow> r = Some (convert_num rules a)"
  by (auto simp: joi_number_def split: option.splits)

lemma reject_rent:
  assumes "q_min_rent q = Some a" "q_max_rent q = Some b" "b \<le> a"
  shows "searchPropertiesSchema q \<noteq> Inr v"
proof
  assume v: "searchPropertiesSchema q = Inr v"
  note f = searchPropertiesSchema_Inr[OF v]
  have mn: "q_min_rent v = Some a"
    using f assms(1)
      joi_number_Some[of "[NPositive, NMax (Lit 50000)]" "[]" "''min_rent''" a "q_min_rent v"]
    by simp
  have "joi_number [NPositive, NMax (Lit 50000), NGreater (Ref ''min_rent'')]
           [(''min_rent'', Some a)] ''max_rent'' (Some b) = Inr (q_max_rent v)"
    using f mn assms(2) by simp
  then have "a < b"
    by (auto simp: joi_number_def split: option.splits if_splits)
  then show False using assms(3) by simp
qed

lemma reject_bedrooms:
  assumes "q_min_bedrooms q = Some a" "q_max_bedrooms q = Some b" "b < a"
  shows "searchPropertiesSchema q \<noteq> Inr v"
proof
  assume v: "searchPropertiesSchema q = Inr v"
  note f = searchPropertiesSchema_Inr[OF v]
  have mn: "q_min_bedrooms v = Some a"
    using f assms(1)
      joi_number_Some[of "[NInteger, NMin (Lit 0), NMax (Lit 20)]" "[]" "''min_bedrooms''" a
        "q_min_bedrooms v"]
    by simp
  have "joi_number [NInteger, NMin (Lit 0), NMax (Lit 20), NMin (Ref ''min_bedrooms'')]
           [(''min_bedrooms'', Some a)] ''max_bedrooms'' (Some b) = Inr (q_max_bedrooms v)"
    using f mn assms(2) by simp
  then have "a \<le> b"
    by (auto simp: joi_number_def split: option.splits if_splits)
  then show False using assms(3) by simp
qed

lemma reject_bathrooms:
  assumes "q_min_bathrooms q = Some a" "q_max_bathrooms q = Some b" "round1 b < round1 a"
  shows "searchPropertiesSchema q \<noteq> Inr v"
proof
  assume v: "searchPropertiesSchema q = Inr v"
  note f = searchPropertiesSchema_Inr[OF v]
  have mn: "q_min_bathrooms v = Some (round1 a)"
    using f assms(1)
      joi_number_Some[of "[NPositive, NPrecision 1, NMax (Lit 20)]" "[]" "''min_bathrooms''" a
        "q_min_bathrooms v"]
    by (simp add: round1_def)
  have "joi_number [NPositive, NPrecision 1, NMax (Lit 20), NMin (Ref ''min_bathrooms'')]
           [(''min_bathrooms'', Some (round1 a))] ''max_bathrooms'' (Some b) =
        Inr (q_max_bathrooms v)"
    using f mn assms(2) by simp
  then have "round1 a \<le> round1 b"
    by (auto simp: joi_number_def round1_def split: option.splits if_splits)
  then show False using assms(3) by simp
qed

lemma reject_sqft:
  assumes "q_min_sqft q = Some a" "q_max_sqft q = Some b" "b < a"
  shows "searchPropertiesSchema q \<noteq> Inr v"
proof
  assume v: "searchPropertiesSchema q = Inr v"
  note f = searchPropertiesSchema_Inr[OF v]
  have mn: "q_min_sqft v = Some a"
    using f assms(1)
      joi_number_Some[of "[NInteger, NPositive, NMax (Lit 50000)]" "[]" "''min_sqft''" a
        "q_min_sqft v"]
    by simp
  have "joi_number [NInteger, NPositive, NMax (Lit 50000), NMin (Ref ''min_sqft'')]
           [(''min_sqft'', Some a)] ''max_sqft'' (Some b) = Inr (q_max_sqft v)"
    using f mn assms(2) by simp
  then have "a \<le> b"
    by (auto simp: joi_number_def split: option.splits if_splits)
  then show False using assms(3) by simp
qed

lemma accept_rent:
  "(\<not> isl (searchPropertiesSchema (no_filters\<lparr>q_min_rent := Some a, q_max_rent := Some b\<rparr>))) \<longleftrightarrow>
     0 < a \<and> a \<le> 50000 \<and> 0 < b \<and> b \<le> 50000 \<and> a < b"
  by (auto simp: searchPropertiesSchema_def no_filters_def bind_err_def joi_string_def
        joi_number_def joi_boolean_def split: if_splits)

lemma accept_bedrooms:
  "(\<not> isl (searchPropertiesSchema
             (no_filters\<lparr>q_min_bedrooms := Some a, q_max_bedrooms := Some b\<rparr>))) \<longleftrightarrow>
     a = of_int \<lfloor>a\<rfloor> \<and> 0 \<le> a \<and> a \<le> 20 \<and> b = of_int \<lfloor>b\<rfloor> \<and> 0 \<le> b \<and> b \<le> 20 \<and> a \<le> b"
  by (auto simp: searchPropertiesSchema_def no_filters_def bind_err_def joi_string_def
        joi_number_def joi_boolean_def split: if_splits)

lemma accept_bathrooms:
  "(\<not> isl (searchPropertiesSchema
             (no_filters\<lparr>q_min_bathrooms := Some a, q_max_bathrooms := Some b\<rparr>))) \<longleftrightarrow>
     0 < round1 a \<and> round1 a \<le> 20 \<and> 0 < round1 b \<and> round1 b \<le> 20 \<and> round1 a \<le> round1 b"
  by (auto simp: searchPropertiesSchema_def no_filters_def bind_err_def joi_string_def
        joi_number_def joi_boolean_def round1_def split: if_splits)

lemma accept_sqft:
  "(\<not> isl (searchPropertiesSchema (no_filters\<lparr>q_min_sqft := Some a, q_max_sqft := Some b\<rparr>))) \<longleftrightarrow>
     a = of_int \<lfloor>a\<rfloor> \<and> 0 < a \<and> a \<le> 50000 \<and> b = of_int \<lfloor>b\<rfloor> \<and> 0 < b \<and> b \<le> 50000 \<and> a \<le> b"
  by (auto simp: searchPropertiesSchema_def no_filters_def bind_err_def joi_string_def
        joi_number_def joi_boolean_def split: if_splits)

text \<open>
  Claim C4 as stated (equality is accepted for all four pairs) fails for the rent pair:
  \<^verbatim>\<open>max_rent\<close> is validated with \<^verbatim>\<open>greater(Joi.ref('min_rent'))\<close>, so a request with
  \<^verbatim>\<open>min_rent = max_rent = 1000\<close> and nothing else is answered 400.
\<close>

theorem search_equal_rent_counterexample:
  "searchProperties (no_filters\<lparr>q_min_rent := Some 1000, q_max_rent := Some 1000\<rparr>) =
     Done \<lparr> status = 400,
            json = ErrorDetails ''Invalid search parameters''
                     [JoiError ''max_rent'' ''number.greater''] \<rparr>"
  by (simp add: searchProperties_def searchPropertiesSchema_def no_filters_def bind_err_def
        joi_string_def joi_number_def joi_boolean_def)

text \<open>
  Claim C4, amended.  A request that supplies both members of a pair is answered 400, with
  no statement sent to the store, when \<^verbatim>\<open>max_rent \<le> min_rent\<close>, when
  \<^verbatim>\<open>max_bedrooms < min_bedrooms\<close>, when \<^verbatim>\<open>max_sqft < min_sqft\<close>, or when
  \<^verbatim>\<open>max_bathrooms < min_bathrooms\<close> after both are rounded to one decimal.  A request that
  supplies one pair and nothing else passes validation exactly when each member is within
  its own bounds and the maximum is greater than the minimum for rent, greater than or equal
  to it for bedrooms, bathrooms (as rounded) and square feet.
\<close>

theorem search_range_pairs:
  "(q_min_rent q = Some a \<and> q_max_rent q = Some b \<and> b \<le> a \<longrightarrow>
      (\<exists>e. searchProperties q =
         Done \<lparr> status = 400, json = ErrorDetails ''Invalid search parameters'' [e] \<rparr>)) \<and>
   (q_min_bedrooms q = Some a \<and> q_max_bedrooms q = Some b \<and> b < a \<longrightarrow>
      (\<exists>e. searchProperties q =
         Done \<lparr> status = 400, json = ErrorDetails ''Invalid search parameters'' [e] \<rparr>)) \<and>
   (q_min_bathrooms q = Some a \<and> q_max_bathrooms q = Some b \<and> round1 b < round1 a \<longrightarrow>
      (\<exists>e. searchProperties q =
         Done \<lparr> status = 400, json = ErrorDetails ''Invalid search parameters'' [e] \<rparr>)) \<and>
   (q_min_sqft q = Some a \<and> q_max_sqft q = Some b \<and> b < a \<longrightarrow>
      (\<exists>e. searchProperties q =
         Done \<lparr> status = 400, json = ErrorDetails ''Invalid search parameters'' [e] \<rparr>)) \<and>
   ((\<not> isl (searchPropertiesSchema (no_filters\<lparr>q_min_rent := Some a, q_max_rent := Some b\<rparr>))) =
      (0 < a \<and> a \<le> 50000 \<and> 0 < b \<and> b \<le> 50000 \<and> a < b)) \<and>
   ((\<not> isl (searchPropertiesSchema
              (no_filters\<lparr>q_min_bedrooms := Some a, q_max_bedrooms := Some b\<rparr>))) =
      (a = of_int \<lfloor>a\<rfloor> \<and> 0 \<le> a \<and> a \<le> 20 \<and> b = of_int \<lfloor>b\<rfloor> \<and> 0 \<le> b \<and> b \<le> 20 \<and> a \<le> b)) \<and>
   ((\<not> isl (searchPropertiesSchema
              (no_filters\<lparr>q_min_bathrooms := Some a, q_max_bathrooms := Some b\<rparr>))) =
      (0 < round1 a \<and> round1 a \<le> 20 \<and> 0 < round1 b \<and> round1 b \<le> 20 \<and>
       round1 a \<le> round1 b)) \<and>
   ((\<not> isl (searchPropertiesSchema (no_filters\<lparr>q_min_sqft := Some a, q_max_sqft := Some b\<rparr>))) =
      (a = of_int \<lfloor>a\<rfloor> \<and> 0 < a \<and> a \<le> 50000 \<and> b = of_int \<lfloor>b\<rfloor> \<and> 0 < b \<and> b \<le> 50000 \<and>
       a \<le> b))"
proof (intro conjI impI)
  assume "q_min_rent q = Some a \<and> q_max_rent q = Some b \<and> b \<le> a"
  then show "\<exists>e. searchProperties q =
         Done \<lparr> status = 400, json = ErrorDetails ''Invalid search parameters'' [e] \<rparr>"
    by (intro search_invalid_400 reject_rent) auto
next
  assume "q_min_bedrooms q = Some a \<and> q_max_bedrooms q = Some b \<and> b < a"
  then show "\<exists>e. searchProperties q =
         Done \<lparr> status = 400, json = ErrorDetails ''Invalid search parameters'' [e] \<rparr>"
    by (intro search_invalid_400 reject_bedrooms) auto
next
  assume "q_min_bathrooms q = Some a \<and> q_max_bathrooms q = Some b \<and> round1 b < round1 a"
  then show "\<exists>e. searchProperties q =
         Done \<lparr> status = 400, json = ErrorDetails ''Invalid search parameters'' [e] \<rparr>"
    by (intro search_invalid_400 reject_bathrooms) auto
next
  assume "q_min_sqft q = Some a \<and> q_max_sqft q = Some b \<and> b < a"
  then show "\<exists>e. searchProperties q =
         Done \<lparr> status = 400, json = ErrorDetails ''Invalid search parameters'' [e] \<rparr>"
    by (intro search_invalid_400 reject_sqft) auto
qed (rule accept_rent accept_bedrooms accept_bathrooms accept_sqft)+

theorem search_range_pairs_witness:
  "q_min_rent reversed_ranges = Some 3 \<and> q_max_rent reversed_ranges = Some 1 \<and> (1::num) \<le> 3 \<and>
   q_min_bedrooms reversed_ranges = Some 3 \<and> q_max_bedrooms reversed_ranges = Some 1 \<and>
   (1::num) < 3 \<and>
   q_min_bathrooms reversed_ranges = Some 3 \<and> q_max_bathrooms reversed_ranges = Some 1 \<and>
   round1 1 < round1 3 \<and>
   q_min_sqft reversed_ranges = Some 3 \<and> q_max_sqft reversed_ranges = Some 1 \<and>
   (\<exists>e. searchProperties reversed_ranges =
         Done \<lparr> status = 400, json = ErrorDetails ''Invalid search parameters'' [e] \<rparr>)"
proof -
  have h: "q_min_rent reversed_ranges = Some 3" "q_max_rent reversed_ranges = Some 1"
    "q_min_bedrooms reversed_ranges = Some 3" "q_max_bedrooms reversed_ranges = Some 1"
    "q_min_bathrooms reversed_ranges = Some 3" "q_max_bathrooms reversed_ranges = Some 1"
    "q_min_sqft reversed_ranges = Some 3" "q_max_sqft reversed_ranges = Some 1"
    by (simp_all add: reversed_ranges_def no_filters_def)
  have r: "round1 1 < round1 3" by code_simp
  show ?thesis
    using h r search_range_pairs [of reversed_ranges 3 1] by simp
qed

section \<open>Statistics\<close>

lemma present_values:
  "map the (filter (\<lambda>v. v \<noteq> None) (map col (filter (\<lambda>p. p_rent_amount p \<noteq> None) ps))) =
   column_values col ps"
  by (induction ps) (auto simp: column_values_def split: option.splits)

lemma sql_avg_column:
  "sql_avg (map col (filter (\<lambda>p. p_rent_amount p \<noteq> None) ps)) =
     (if column_values col ps = [] then None else Some (mean (column_values col ps)))"
  unfolding sql_avg_def Let_def present_values mean_def by simp

lemma stats_run: "run pg propertyStats s = (stats_respond (stats_of (properties s)), s)"
  by (simp add: propertyStats_def pg_def)

text \<open>
  Claim C9.  The statistics handler, run against the store, answers 200 with a statistics
  object in which each average is \<^verbatim>\<open>null\<close> exactly when no row with a rent has a value
  in the column, and is otherwise the mean of those values, rounded to a whole number (rent,
  square feet) or to one decimal (bedrooms, bathrooms); a mean of 0 is reported as 0.
\<close>

theorem statistics_averages:
  "\<exists>st. run pg propertyStats s = (\<lparr> status = 200, json = Statistics st \<rparr>, s) \<and>
     rent_average st =
       (if column_values p_rent_amount (properties s) = [] then None
        else Some (math_round (mean (column_values p_rent_amount (properties s))))) \<and>
     avg_bedrooms st =
       (if column_values (\<lambda>p. map_option of_int (p_bedrooms p)) (properties s) = [] then None
        else Some (round1 (mean (column_values (\<lambda>p. map_option of_int (p_bedrooms p))
                                   (properties s))))) \<and>
     avg_bathrooms st =
       (if column_values p_bathrooms (properties s) = [] then None
        else Some (round1 (mean (column_values p_bathrooms (properties s))))) \<and>
     avg_square_feet st =
       (if column_values (\<lambda>p. map_option of_int (p_square_feet p)) (properties s) = [] then None
        else Some (math_round (mean (column_values (\<lambda>p. map_option of_int (p_square_feet p))
                                       (properties s)))))"
  unfolding stats_run
  by (simp add: stats_respond_def stats_of_def Let_def sql_avg_column truthy_text_def round1_def
        del: not_None_eq)

theorem statistics_averages_witness:
  "\<exists>st. run pg propertyStats (example_store\<lparr>properties := [studio]\<rparr>) =
          (\<lparr> status = 200, json = Statistics st \<rparr>, example_store\<lparr>properties := [studio]\<rparr>) \<and>
        rent_average st = Some 900 \<and> avg_bedrooms st = Some 0 \<and> avg_bathrooms st = Some 1 \<and>
        avg_square_feet st = None"
proof -
  have r: "math_round 900 = 900" "round1 0 = 0" "round1 1 = 1" by code_simp+
  show ?thesis
    using statistics_averages [of "example_store\<lparr>properties := [studio]\<rparr>"]
    by (simp add: column_values_def studio_def mean_def r)
qed

section \<open>Duplicate listings\<close>

lemma lower_char_digit: "is_digit c \<or> c = CHR ''-'' \<Longrightarrow> lower_char c = c"
  by (auto simp: lower_char_def is_digit_def Let_def)

lemma of_char_lower: "(of_char (lower_char c) :: nat) = (let n = of_char c in if 65 \<le> n \<and> n \<le> 90 then n + 32 else n)"
  by (simp add: lower_char_def Let_def)

lemma lower_char_fixed: "is_digit (lower_char c) \<or> lower_char c = CHR ''-'' \<Longrightarrow> lower_char c = c"
proof (cases "65 \<le> (of_char c :: nat) \<and> (of_char c :: nat) \<le> 90")
  case False
  then have "lower_char c = c" unfolding lower_char_def Let_def by (simp only: if_False)
  then show ?thesis .
next
  case True
  assume a: "is_digit (lower_char c) \<or> lower_char c = CHR ''-''"
  have "(of_char (lower_char c) :: nat) = of_char c + 32" using True by (simp add: of_char_lower)
  then have "(of_char (lower_char c) :: nat) \<ge> 97" using True by simp
  moreover have "(of_char (lower_char c) :: nat) \<le> 57" using a by (auto simp: is_digit_def Let_def)
  ultimately show ?thesis by simp
qed

lemma zip_chars:
  assumes "zip_pattern z"
  shows "\<forall>c\<in>set z. is_digit c \<or> c = CHR ''-''"
proof (cases "length z = 5")
  case True
  with assms show ?thesis by (auto simp: zip_pattern_def list_all_iff)
next
  case False
  with assms have l: "length z = 10" and a: "list_all is_digit (take 5 z)" and b: "z ! 5 = CHR ''-''"
    and c: "list_all is_digit (drop 6 z)"
    by (auto simp: zip_pattern_def)
  have "z = take 5 z @ z ! 5 # drop (Suc 5) z"
    using l by (intro id_take_nth_drop) simp
  then have "set z = set (take 5 z @ z ! 5 # drop (Suc 5) z)" by simp
  then have "set z = set (take 5 z) \<union> {z ! 5} \<union> set (drop 6 z)"
    by (simp add: eval_nat_numeral)
  then show ?thesis using a b c by (auto simp: list_all_iff)
qed

lemma map_fixed:
  assumes "\<forall>c\<in>set xs. P (f c)" and "\<And>c. P (f c) \<Longrightarrow> f c = c"
  shows "map f xs = xs"
  using assms by (induction xs) auto

lemma zip_lower: "zip_pattern z \<Longrightarrow> lower z = z"
  unfolding lower_def using zip_chars[of z] lower_char_digit by (intro map_idI) blast

lemma zip_lower_eq:
  assumes "zip_pattern z" "lower z' = lower z"
  shows "z' = z"
proof -
  have m: "map lower_char z' = z" using assms zip_lower by (simp add: lower_def)
  have "\<forall>c\<in>set z'. is_digit (lower_char c) \<or> lower_char c = CHR ''-''"
    using zip_chars[OF assms(1)] m by auto
  then have "map lower_char z' = z'"
    using lower_char_fixed by (rule map_fixed)
  with m show ?thesis by simp
qed

lemma create_valid_strings:
  assumes "createPropertySchema b = Inr v"
  shows "\<exists>a c st z. b_address v = Some a \<and> b_city v = Some c \<and> b_state v = Some st \<and>
           b_zip_code v = Some z \<and> zip_pattern z \<and> b_address b = Some a \<and> b_zip_code b = Some z"
  using assms unfolding createPropertySchema_def
  apply (elim bind_err_InrE)
  apply (drule joi_string_Inr)+
  apply (auto split: if_splits)
  done

lemma create_valid_numbers:
  assumes "createPropertySchema b = Inr v"
  shows "(\<forall>x. b_bedrooms v = Some x \<longrightarrow> x = of_int \<lfloor>x\<rfloor> \<and> 0 \<le> x \<and> x \<le> 20) \<and>
         (\<forall>x. b_square_feet v = Some x \<longrightarrow> x = of_int \<lfloor>x\<rfloor> \<and> 0 < x \<and> x \<le> 50000)"
  using assms unfolding createPropertySchema_def
  apply (elim bind_err_InrE)
  apply (drule joi_number_Inr)+
  apply (auto split: if_splits)
  done

lemma int4_error_bounded:
  assumes "x = of_int \<lfloor>x\<rfloor>" "0 \<le> x" "x \<le> 50000"
  shows "int4_error x = None"
proof -
  have "\<bar>x\<bar> < 10 ^ 21" using assms(2,3) by simp
  then show ?thesis using assms by (simp add: int4_error_def)
qed

lemma create_insert_params:
  assumes v: "createPropertySchema b = Inr v"
    and l: "b_landlord_id v = Some (rat_of_int lid)"
    and r: "- 2147483648 \<le> lid" "lid \<le> 2147483647"
  shows "int4_errors [b_bedrooms v, b_square_feet v, b_landlord_id v] = None"
proof -
  note n = create_valid_numbers[OF v]
  have a: "int4_errors [b_landlord_id v] = None"
    using l int4_in_range[OF r] by simp
  have b: "\<And>x. b_bedrooms v = Some x \<Longrightarrow> int4_error x = None"
    using n by (intro int4_error_bounded) auto
  have c: "\<And>x. b_square_feet v = Some x \<Longrightarrow> int4_error x = None"
    using n by (intro int4_error_bounded) auto
  show ?thesis
    using a b c by (cases "b_bedrooms v"; cases "b_square_feet v") simp_all
qed

lemma create_outcome:
  assumes v: "createPropertySchema b = Inr v" and a: "b_address v = Some a"
    and c: "b_city v = Some c" and st: "b_state v = Some st" and z: "b_zip_code v = Some z"
    and l: "b_landlord_id v = Some (rat_of_int lid)"
    and r: "- 2147483648 \<le> lid" "lid \<le> 2147483647"
  shows "run pg (createProperty b) s =
    (case filter (\<lambda>u. user_id u = lid) (users s) of
       [] \<Rightarrow> (\<lparr> status = 404, json = ErrorMessage ''Landlord not found''
                      ''The specified landlord_id does not exist'' \<rparr>, s)
     | u # us \<Rightarrow>
         if u_role u \<noteq> ''landlord''
         then (\<lparr> status = 403, json = ErrorMessage ''Invalid user role''
                      ''Only users with landlord role can create properties'' \<rparr>, s)
         else (case filter (\<lambda>p. lower (p_address p) = lower a \<and> p_zip_code p = z) (properties s) of
                 r # rs \<Rightarrow> (conflict (p_id r), s)
               | [] \<Rightarrow> (\<lparr> status = 201, json = Created (inserted_row v a c st z s) \<rparr>,
                          s\<lparr>properties := properties s @ [inserted_row v a c st z s],
                            next_id := next_id s + 1\<rparr>)))"
proof -
  have e1: "int4_error (rat_of_int lid) = None" by (rule int4_in_range[OF r])
  have e3: "int4_errors [b_bedrooms v, b_square_feet v, Some (rat_of_int lid)] = None"
    using create_insert_params[OF v l r] l by simp
  show ?thesis
  proof (cases "filter (\<lambda>u. user_id u = lid) (users s)")
    case Nil
    then show ?thesis using v l e1
      by (simp add: createProperty_def pg_def create_landlord_checked_def)
  next
    case (Cons u us)
    then have "u \<in> set (filter (\<lambda>u. user_id u = lid) (users s))"
      by simp
    then have fk: "user_id u = lid" "u \<in> set (users s)" by auto
    have ex: "list_ex (\<lambda>w. user_id w = lid) (users s)"
      using fk by (auto simp: list_ex_iff)
    show ?thesis
    proof (cases "filter (\<lambda>p. lower (p_address p) = lower a \<and> p_zip_code p = z) (properties s)")
      case Nil
      then show ?thesis using v Cons a c st z l e1 e3 ex
        by (simp add: createProperty_def pg_def create_landlord_checked_def
              create_duplicate_checked_def create_inserted_def Let_def)
    next
      case (Cons r rs)
      then show ?thesis using v \<open>filter _ (users s) = u # us\<close> a z l e1
        by (simp add: createProperty_def pg_def create_landlord_checked_def
              create_duplicate_checked_def conflict_def)
    qed
  qed
qed

lemma create_invalid_unchanged:
  "createPropertySchema b = Inl e \<Longrightarrow> snd (run pg (createProperty b) s) = s"
  by (simp add: createProperty_def)


lemma create_properties_cases:
  "properties (snd (run pg (createProperty b) s)) = properties s \<or>
   (\<exists>row. properties (snd (run pg (createProperty b) s)) = properties s @ [row] \<and>
      listing_key row \<notin> listing_key ` set (properties s))"
proof (cases "createPropertySchema b")
  case (Inl e)
  then show ?thesis by (simp add: create_invalid_unchanged)
next
  case (Inr v)
  obtain a c st z where f: "b_address v = Some a" "b_city v = Some c" "b_state v = Some st"
      "b_zip_code v = Some z" "zip_pattern z"
    using create_valid_strings[OF Inr] by blast
  obtain lid where l: "b_landlord_id v = Some (rat_of_int lid)"
    using create_valid_landlord[OF Inr] by blast
  show ?thesis
  proof (cases "- 2147483648 \<le> lid \<and> lid \<le> 2147483647")
    case False
    then have "lid < - 2147483648 \<or> 2147483647 < lid" by auto
    then show ?thesis using create_out_of_range[OF Inr l, of s] by simp
  next
    case True
    then have r: "- 2147483648 \<le> lid" "lid \<le> 2147483647" by simp_all
    note out = create_outcome[OF Inr f(1-4) l r, of s]
    show ?thesis
    proof (cases "filter (\<lambda>u. user_id u = lid) (users s)")
      case Nil
      then show ?thesis using out by simp
    next
      case (Cons u us)
      show ?thesis
      proof (cases "u_role u \<noteq> ''landlord''")
        case True
        then show ?thesis using out Cons by simp
      next
        case False
        show ?thesis
        proof (cases "filter (\<lambda>p. lower (p_address p) = lower a \<and> p_zip_code p = z) (properties s)")
          case (Cons r rs)
          then show ?thesis using out \<open>filter _ (users s) = u # us\<close> False by simp
        next
          case Nil
          let ?row = "inserted_row v a c st z s"
          have new: "properties (snd (run pg (createProperty b) s)) = properties s @ [?row]"
            using out \<open>filter _ (users s) = u # us\<close> False Nil by simp
          have "listing_key ?row \<notin> listing_key ` set (properties s)"
          proof
            assume "listing_key ?row \<in> listing_key ` set (properties s)"
            then obtain r where r: "r \<in> set (properties s)" "listing_key r = listing_key ?row"
              by auto
            then have "lower (p_address r) = lower a" "lower (p_zip_code r) = lower z"
              by (simp_all add: listing_key_def inserted_row_def)
            then have "lower (p_address r) = lower a \<and> p_zip_code r = z"
              using zip_lower_eq[OF f(5)] by simp
            then have "r \<in> set (filter (\<lambda>p. lower (p_address p) = lower a \<and> p_zip_code p = z)
                                 (properties s))"
              using r(1) by simp
            then show False using Nil by simp
          qed
          then show ?thesis using new by blast
        qed
      qed
    qed
  qed
qed

lemma create_keeps_no_duplicates:
  assumes "no_duplicates (properties s)"
  shows "no_duplicates (properties (snd (run pg (createProperty b) s)))"
  using create_properties_cases[of b s] assms
  by (auto simp: no_duplicates_def)

lemma serve_creates_no_duplicates:
  "no_duplicates (properties s) \<Longrightarrow> no_duplicates (properties (serve_creates bs s))"
  by (induction bs arbitrary: s) (auto intro: create_keeps_no_duplicates)

lemma create_duplicate_409:
  assumes v: "createPropertySchema b = Inr v"
    and a: "b_address v = Some a" and z: "b_zip_code v = Some z"
    and l: "b_landlord_id v = Some (of_int lid)"
    and u: "find (\<lambda>u. user_id u = lid) (users s) = Some u" "u_role u = ''landlord''"
    and r: "find (\<lambda>p. lower (p_address p) = lower a \<and> lower (p_zip_code p) = lower z) (properties s) = Some r"
  shows "run pg (createProperty b) s = (conflict (p_id r), s)"
proof -
  obtain a' c st z' where f: "b_address v = Some a'" "b_city v = Some c" "b_state v = Some st"
      "b_zip_code v = Some z'" "zip_pattern z'"
    using create_valid_strings[OF v] by blast
  have az: "a' = a" "z' = z" using f a z by simp_all
  have "user_id u = lid" using find_holds[OF u(1)] .
  then have rg: "- 2147483648 \<le> lid" "lid \<le> 2147483647"
    using user_id_range[of u] by simp_all
  note out = create_outcome[OF v f(1-4) l rg, of s]
  obtain us where us: "filter (\<lambda>u. user_id u = lid) (users s) = u # us"
    using filter_find_Cons[OF u(1)] by auto
  have same: "(\<lambda>p. lower (p_address p) = lower a \<and> lower (p_zip_code p) = lower z) =
              (\<lambda>p. lower (p_address p) = lower a \<and> p_zip_code p = z)"
    using zip_lower_eq[OF f(5)] az by auto
  obtain rs where rs: "filter (\<lambda>p. lower (p_address p) = lower a \<and> p_zip_code p = z) (properties s) = r # rs"
    using filter_find_Cons[OF r] unfolding same by auto
  show ?thesis using out us u(2) rs az by simp
qed

lemma example_body_fields:
  "b_address example_body = Some ''123 Main St''" "b_city example_body = Some ''Austin''"
  "b_state example_body = Some ''TX''" "b_zip_code example_body = Some ''78701''"
  "b_landlord_id example_body = Some 5"
  by (simp_all add: example_body_def)

lemma example_body_numbers:
  "b_bedrooms example_body = None" "b_square_feet example_body = None"
  by (simp_all add: example_body_def)

lemma example_create_prog:
  "createProperty example_body =
     Await (SelectUser (Some 5)) (create_landlord_checked example_body)"
  by (simp add: createProperty_def example_body_valid example_body_fields)

lemma shouted_body_valid: "createPropertySchema shouted_body = Inr shouted_body"
  by (simp add: createPropertySchema_def shouted_body_def example_body_def bind_err_def joi_string_def
        joi_number_def zip_pattern_def is_digit_def)

lemma lower_example: "lower ''123 Main St'' = lower ''123 MAIN ST''"
  by code_simp

text \<open>
  Claim C5 as stated (no duplicates in any state reachable through the create endpoint)
  fails when two requests are in flight together: the handler checks for a duplicate and
  inserts in two separate statements, with no transaction and no unique constraint, so two
  requests for the same address can both pass the check before either inserts.  Both are
  answered 201 and the table holds the listing twice.
\<close>

theorem create_interleaved_duplicates_counterexample:
  "(case run_schedule [0, 0, 1, 1, 0, 1]
           ([createProperty example_body, createProperty example_body], example_store) of
      (ps, s) \<Rightarrow> statuses ps = [Some 201, Some 201] \<and> \<not> no_duplicates (properties s) \<and> map p_id (properties s) = [1, 2])"
  by (simp add: example_create_prog example_body_fields step_def pg_def example_store_def
        example_landlord_def create_landlord_checked_def create_duplicate_checked_def
        create_inserted_def inserted_row_def no_duplicates_def listing_key_def Let_def
        int4_error_def user_id_def example_body_numbers)

text \<open>
  Claim C5, amended.  When create requests are handled one after the other, the table never
  holds two rows with the same address and zip code compared without regard to case,
  starting from a table without such rows (the empty table in particular); and a request
  that passes validation and the landlord check and whose address and zip code match an
  existing row in that way is answered 409 with the id of the first such row, the store
  being left as it was.
\<close>

theorem create_sequential_no_duplicates:
  "(no_duplicates (properties s) \<longrightarrow> no_duplicates (properties (serve_creates bs s))) \<and>
   (properties s = [] \<longrightarrow> no_duplicates (properties (serve_creates bs s))) \<and>
   (createPropertySchema b = Inr v \<and> b_address v = Some a \<and> b_zip_code v = Some z \<and>
    b_landlord_id v = Some (of_int lid) \<and>
    find (\<lambda>u. user_id u = lid) (users s) = Some u \<and> u_role u = ''landlord'' \<and>
    find (\<lambda>p. lower (p_address p) = lower a \<and> lower (p_zip_code p) = lower z) (properties s) =
      Some r \<longrightarrow>
    run pg (createProperty b) s =
      (\<lparr> status = 409,
         json = Conflict ''Property already exists''
                  ''A property with this address and zip code already exists'' (p_id r) \<rparr>, s))"
proof (intro conjI impI)
  assume "no_duplicates (properties s)"
  then show "no_duplicates (properties (serve_creates bs s))"
    by (rule serve_creates_no_duplicates)
next
  assume "properties s = []"
  then have "no_duplicates (properties s)" by (simp add: no_duplicates_def)
  then show "no_duplicates (properties (serve_creates bs s))"
    by (rule serve_creates_no_duplicates)
next
  assume h: "createPropertySchema b = Inr v \<and> b_address v = Some a \<and> b_zip_code v = Some z \<and>
    b_landlord_id v = Some (of_int lid) \<and>
    find (\<lambda>u. user_id u = lid) (users s) = Some u \<and> u_role u = ''landlord'' \<and>
    find (\<lambda>p. lower (p_address p) = lower a \<and> lower (p_zip_code p) = lower z) (properties s) =
      Some r"
  then show "run pg (createProperty b) s =
      (\<lparr> status = 409,
         json = Conflict ''Property already exists''
                  ''A property with this address and zip code already exists'' (p_id r) \<rparr>, s)"
    using create_duplicate_409[of b v a z lid s u r] by (simp add: conflict_def)
qed

lemma serve_example: "serve_creates [example_body] example_store = example_store1"
  by (simp add: example_create_prog example_body_fields pg_def example_store_def example_store1_def
        example_landlord_def create_landlord_checked_def create_duplicate_checked_def
        create_inserted_def example_row_def Let_def int4_error_def user_id_def
        example_body_numbers)

theorem create_sequential_no_duplicates_witness:
  "properties example_store = [] \<and>
   no_duplicates (properties (serve_creates [example_body, shouted_body] example_store)) \<and>
   createPropertySchema shouted_body = Inr shouted_body \<and>
   b_address shouted_body = Some ''123 MAIN ST'' \<and> b_zip_code shouted_body = Some ''78701'' \<and>
   b_landlord_id shouted_body = Some (of_int 5) \<and>
   find (\<lambda>u. user_id u = 5) (users example_store1) = Some example_landlord \<and>
   u_role example_landlord = ''landlord'' \<and>
   find (\<lambda>p. lower (p_address p) = lower ''123 MAIN ST'' \<and>
             lower (p_zip_code p) = lower ''78701'') (properties example_store1) = Some example_row \<and>
   run pg (createProperty shouted_body) example_store1 =
      (\<lparr> status = 409,
         json = Conflict ''Property already exists''
                  ''A property with this address and zip code already exists'' 1 \<rparr>, example_store1)"
proof -
  have e: "properties example_store = []" by (simp add: example_store_def)
  have f: "b_address shouted_body = Some ''123 MAIN ST''" "b_zip_code shouted_body = Some ''78701''"
    "b_landlord_id shouted_body = Some (of_int 5)"
    by (simp_all add: shouted_body_def example_body_def)
  have u: "find (\<lambda>u. user_id u = 5) (users example_store1) = Some example_landlord"
    "u_role example_landlord = ''landlord''"
    by (simp_all add: example_store1_def example_store_def example_landlord_def user_id_def)
  have r: "find (\<lambda>p. lower (p_address p) = lower ''123 MAIN ST'' \<and>
             lower (p_zip_code p) = lower ''78701'') (properties example_store1) = Some example_row"
    by (simp add: example_store1_def example_row_def inserted_row_def lower_example)
  have i: "p_id example_row = 1"
    by (simp add: example_row_def inserted_row_def example_store_def)
  from create_sequential_no_duplicates [of example_store "[example_body, shouted_body]"]
  have a: "no_duplicates (properties (serve_creates [example_body, shouted_body] example_store))"
    using e by blast
  from create_sequential_no_duplicates [of example_store1 "[]" shouted_body shouted_body
      "''123 MAIN ST''" "''78701''" 5 example_landlord example_row]
  have b: "run pg (createProperty shouted_body) example_store1 =
      (\<lparr> status = 409,
         json = Conflict ''Property already exists''
                  ''A property with this address and zip code already exists'' 1 \<rparr>, example_store1)"
    using shouted_body_valid f u r i by simp
  show ?thesis using e a shouted_body_valid f u r b by simp
qed


section \<open>Searching\<close>

lemma param_append: "1 \<le> n \<Longrightarrow> n \<le> length ps \<Longrightarrow> param (ps @ qs) n = param ps n"
  by (auto simp add: param_def nth_append)

lemma param_last: "param (ps @ [x]) (Suc (length ps)) = x"
  by (simp add: param_def nth_append)

lemma param_single: "param [x] 1 = x" "param [x] (Suc 0) = x"
  by (simp_all add: param_def)

lemma eval_cond_param:
  "param ps (placeholder c) = param ps' (placeholder c) \<Longrightarrow> eval_cond ps p c = eval_cond ps' p c"
  by (cases c) simp_all

lemma eval_cond_append:
  assumes "1 \<le> placeholder c" "placeholder c \<le> length ps"
  shows "eval_cond (ps @ qs) p c = eval_cond ps p c"
  by (rule eval_cond_param) (rule param_append[OF assms])

lemma list_all_eval_append:
  assumes "map placeholder cs = [1..<Suc (length ps)]"
  shows "list_all (eval_cond (ps @ qs) p) cs = list_all (eval_cond ps p) cs"
proof -
  have "\<forall>c\<in>set cs. 1 \<le> placeholder c \<and> placeholder c \<le> length ps"
  proof
    fix c assume "c \<in> set cs"
    then have "placeholder c \<in> set (map placeholder cs)" by simp
    then show "1 \<le> placeholder c \<and> placeholder c \<le> length ps"
      unfolding assms by auto
  qed
  then show ?thesis
    by (auto simp: list_all_iff eval_cond_append)
qed

lemma uniform_conds:
  "uniform (SqlLowerLike c)" "uniform (SqlLowerEq c)" "uniform (SqlEq c)" "uniform (SqlGe c)"
  "uniform (SqlLe c)"
  by (simp_all add: uniform_def param_single)

lemma push_filter_step:
  assumes "where_ok st" "uniform (snd f)"
  shows "where_ok (push_filter st f) \<and>
         (where_holds (push_filter st f) p \<longleftrightarrow> where_holds st p \<and> filter_holds f p)"
proof -
  obtain cs ps n where st: "st = (cs, ps, n)" by (cases st) auto
  obtain v cond where f: "f = (v, cond)" by (cases f) auto
  have ok: "n = length ps" "map placeholder cs = [1..<Suc (length ps)]"
    using assms(1) st by (auto simp: where_ok_def)
  have u: "\<And>k. placeholder (cond k) = k"
    "\<And>k qs p. eval_cond qs p (cond k) = eval_cond [param qs k] p (cond 1)"
    using assms(2) f by (auto simp: uniform_def)
  show ?thesis
  proof (cases v)
    case None
    then show ?thesis using st f assms(1) by (simp add: push_filter_def filter_holds_def)
  next
    case (Some x)
    have new: "push_filter st f = (cs @ [cond (n + 1)], ps @ [x], n + 1)"
      using st f Some by (simp add: push_filter_def)
    have a: "where_ok (cs @ [cond (n + 1)], ps @ [x], n + 1)"
      using ok u(1) by (simp add: where_ok_def)
    have b: "eval_cond (ps @ [x]) p (cond (n + 1)) = eval_cond [x] p (cond 1)"
      using u(2)[of "ps @ [x]" p "n + 1"] ok(1) by (simp add: param_last)
    have c: "list_all (eval_cond (ps @ [x]) p) cs = list_all (eval_cond ps p) cs"
      by (rule list_all_eval_append[OF ok(2)])
    show ?thesis
      unfolding new using a b c st f Some
      by (simp add: where_holds_def filter_holds_def)
  qed
qed

lemma foldl_push_filter:
  assumes "where_ok st" "\<forall>f\<in>set fs. uniform (snd f)"
  shows "where_ok (foldl push_filter st fs) \<and>
         (where_holds (foldl push_filter st fs) p \<longleftrightarrow>
            where_holds st p \<and> (\<forall>f\<in>set fs. filter_holds f p))"
  using assms
proof (induction fs arbitrary: st)
  case Nil
  then show ?case by simp
next
  case (Cons f fs)
  have s: "where_ok (push_filter st f)"
    "where_holds (push_filter st f) p \<longleftrightarrow> where_holds st p \<and> filter_holds f p"
    using push_filter_step[of st f p] Cons.prems by auto
  have "where_ok (foldl push_filter (push_filter st f) fs) \<and>
         (where_holds (foldl push_filter (push_filter st f) fs) p \<longleftrightarrow>
            where_holds (push_filter st f) p \<and> (\<forall>f\<in>set fs. filter_holds f p))"
    using Cons.IH[OF s(1)] Cons.prems(2) by simp
  then show ?case using s(2) by auto
qed

lemma where_filters_uniform: "\<forall>f\<in>set (where_filters v). uniform (snd f)"
  by (simp add: where_filters_def uniform_conds)

lemma build_where_ok:
  "where_ok (build_where v)"
  "where_holds (build_where v) p \<longleftrightarrow> (\<forall>f\<in>set (where_filters v). filter_holds f p)"
  using foldl_push_filter[of "([], [], 0)" "where_filters v" p] where_filters_uniform[of v]
  by (simp_all add: build_where_def where_ok_def where_holds_def)


lemma joi_string_nonempty:
  assumes "joi_string rules key w = Inr r" "\<not> str_valids rules"
  shows "truthy_str r = r"
  using joi_string_Inr[OF assms(1)] assms(2)
  by (cases r) (auto simp: truthy_str_def)

lemma search_valid_strings:
  assumes "searchPropertiesSchema q = Inr v"
  shows "truthy_str (q_city v) = q_city v" "truthy_str (q_state v) = q_state v"
    "truthy_str (q_zip_code v) = q_zip_code v"
proof -
  note f = searchPropertiesSchema_Inr[OF assms]
  show "truthy_str (q_city v) = q_city v"
    using f by (intro joi_string_nonempty[of "[SMin 2, SMax 100]" "''city''" "q_city q"]) simp_all
  show "truthy_str (q_state v) = q_state v"
    using f by (intro joi_string_nonempty[of "[SMin 2, SMax 50]" "''state''" "q_state q"]) simp_all
  show "truthy_str (q_zip_code v) = q_zip_code v"
    using f
    by (intro joi_string_nonempty[of "[SPattern zip_pattern]" "''zip_code''" "q_zip_code q"])
      simp_all
qed

lemma ge_holds:
  assumes "col_val c p = (case x of None \<Rightarrow> Null | Some y \<Rightarrow> Num y)"
  shows "filter_holds (map_option Num b, SqlGe c) p = at_least b x"
  using assms by (cases b; cases x) (simp_all add: filter_holds_def at_least_def param_single)

lemma le_holds:
  assumes "col_val c p = (case x of None \<Rightarrow> Null | Some y \<Rightarrow> Num y)"
  shows "filter_holds (map_option Num b, SqlLe c) p = at_most b x"
  using assms by (cases b; cases x) (simp_all add: filter_holds_def at_most_def param_single)

lemma col_val_num:
  "col_val RentAmount p = (case p_rent_amount p of None \<Rightarrow> Null | Some y \<Rightarrow> Num y)"
  "col_val Bathrooms p = (case p_bathrooms p of None \<Rightarrow> Null | Some y \<Rightarrow> Num y)"
  "col_val Bedrooms p =
     (case map_option rat_of_int (p_bedrooms p) of None \<Rightarrow> Null | Some y \<Rightarrow> Num y)"
  "col_val SquareFeet p =
     (case map_option rat_of_int (p_square_feet p) of None \<Rightarrow> Null | Some y \<Rightarrow> Num y)"
  by (simp_all add: col_val_def split: option.splits)

lemma other_holds:
  "filter_holds (map_option (\<lambda>city. Str (CHR ''%'' # city @ ''%'')) b, SqlLowerLike City) p =
     (case b of None \<Rightarrow> True | Some c \<Rightarrow> like (lower (''%'' @ c @ ''%'')) (lower (p_city p)))"
  "filter_holds (map_option Str b, SqlLowerEq State) p =
     (case b of None \<Rightarrow> True | Some st \<Rightarrow> lower (p_state p) = lower st)"
  "filter_holds (map_option Str b, SqlEq ZipCode) p =
     (case b of None \<Rightarrow> True | Some z \<Rightarrow> p_zip_code p = z)"
  "filter_holds (map_option Bool d, SqlEq LandlordVerified) p =
     (case d of None \<Rightarrow> True | Some x \<Rightarrow> p_landlord_verified p = x)"
  by (cases b; cases d; simp add: filter_holds_def col_val_def param_single)+

lemma filters_hold_iff:
  assumes "truthy_str (q_city v) = q_city v" "truthy_str (q_state v) = q_state v"
    "truthy_str (q_zip_code v) = q_zip_code v"
  shows "(\<forall>f\<in>set (where_filters v). filter_holds f p) = satisfies_filters v p"
  unfolding where_filters_def satisfies_filters_def assms
  by (simp add: other_holds ge_holds[OF col_val_num(1)] le_holds[OF col_val_num(1)]
        ge_holds[OF col_val_num(2)] le_holds[OF col_val_num(2)]
        ge_holds[OF col_val_num(3)] le_holds[OF col_val_num(3)]
        ge_holds[OF col_val_num(4)] le_holds[OF col_val_num(4)])

lemma where_rows_build:
  assumes "where_ok (cs, fp, n)"
  shows "where_rows cs (fp @ extra) rows = filter (\<lambda>(p, u). where_holds (cs, fp, n) p) rows"
proof -
  have "map placeholder cs = [1..<Suc (length fp)]" using assms by (simp add: where_ok_def)
  then show ?thesis
    by (simp add: where_rows_def where_holds_def list_all_eval_append)
qed

lemma params_fit_search:
  assumes "where_ok (cs, fp, n)"
  shows "params_fit (map placeholder cs @ [n + 1, n + 2]) (fp @ [a] @ [b])"
    "params_fit (map placeholder cs) fp"
  using assms by (auto simp: where_ok_def params_fit_def list_all_iff)

lemma set_order_rows: "set (order_rows oc rows) = set rows"
  by (cases oc) (auto simp: order_rows_def Let_def split: direction.splits)

lemma is_nat_num_of_nat: "is_nat_num (Num (of_nat n))" "nat_of_val (Num (of_nat n)) = n"
  by (simp_all add: is_nat_num_def nat_of_val_def)

lemma search_run_pg:
  assumes v: "searchPropertiesSchema q = Inr v"
    and l: "q_limit v = Some (of_nat L)" and k: "q_offset v = Some (of_nat K)"
  shows "run pg (searchProperties q) s =
    (search_respond v (case q_sort_by v of None \<Rightarrow> ''newest'' | Some x \<Rightarrow> x) (of_nat L) (of_nat K)
       (Inr (Rows_joined (take L (drop K
          (order_rows (order_clause_of (case q_sort_by v of None \<Rightarrow> ''newest'' | Some x \<Rightarrow> x))
             (filter (\<lambda>(p, u). satisfies_filters v p) (joined s)))))))
       (Inr (Rows_count (length (filter (\<lambda>(p, u). satisfies_filters v p) (joined s))))), s)"
proof -
  obtain cs fp n where b: "build_where v = (cs, fp, n)" by (cases "build_where v") auto
  have ok: "where_ok (cs, fp, n)" using build_where_ok(1)[of v] b by simp
  have n: "n = length fp" using ok by (simp add: where_ok_def)
  have h: "\<And>p. where_holds (cs, fp, n) p = satisfies_filters v p"
    using build_where_ok(2)[of v] b filters_hold_iff[OF search_valid_strings[OF v]] by simp
  have w: "\<And>extra. where_rows cs (fp @ extra) (joined s) =
             filter (\<lambda>(p, u). satisfies_filters v p) (joined s)"
    using where_rows_build[OF ok] h by simp
  have w0: "where_rows cs fp (joined s) = filter (\<lambda>(p, u). satisfies_filters v p) (joined s)"
    using w[of "[]"] by simp
  have pl: "param (fp @ [Num (of_nat L), Num (of_nat K)]) (Suc n) = Num (of_nat L)"
    "param (fp @ [Num (of_nat L), Num (of_nat K)]) (Suc (Suc n)) = Num (of_nat K)"
    using n by (simp_all add: param_def nth_append)
  have pf: "params_fit (map placeholder cs @ [Suc n, Suc (Suc n)]) (fp @ [Num (of_nat L), Num (of_nat K)])"
    "params_fit (map placeholder cs) fp"
    using params_fit_search(1)[OF ok, of "Num (of_nat L)" "Num (of_nat K)"]
      params_fit_search(2)[OF ok] by simp_all
  have bl: "butlast (butlast (fp @ [Num (of_nat L), Num (of_nat K)])) = fp"
    by (simp add: butlast_append)
  show ?thesis
    using v l k b pf pl w[of "[Num (of_nat L), Num (of_nat K)]"] w0
    by (simp add: searchProperties_def pg_def Let_def is_nat_num_of_nat bl)
qed


lemma joi_number_value:
  assumes "joi_number rules anc k w = Inr r" "num_default rules = None"
  shows "r = map_option (convert_num rules) w"
  using assms by (cases w) (auto simp: joi_number_def split: option.splits if_splits)

lemma joi_string_value: "joi_string rules k w = Inr r \<Longrightarrow> r = w"
  using joi_string_Inr by blast

lemma search_valid_filters:
  assumes "searchPropertiesSchema q = Inr v"
  shows "q_city v = q_city q \<and> q_state v = q_state q \<and> q_zip_code v = q_zip_code q \<and>
     q_min_rent v = q_min_rent q \<and> q_max_rent v = q_max_rent q \<and>
     q_min_bedrooms v = q_min_bedrooms q \<and> q_max_bedrooms v = q_max_bedrooms q \<and>
     q_min_bathrooms v = map_option round1 (q_min_bathrooms q) \<and>
     q_max_bathrooms v = map_option round1 (q_max_bathrooms q) \<and>
     q_min_sqft v = q_min_sqft q \<and> q_max_sqft v = q_max_sqft q \<and>
     q_landlord_verified v = q_landlord_verified q"
proof -
  note f = searchPropertiesSchema_Inr[OF assms]
  have "q_city v = q_city q"
    using joi_string_value[of "[SMin 2, SMax 100]" "''city''" "q_city q" "q_city v"] f by simp
  moreover have "q_state v = q_state q"
    using joi_string_value[of "[SMin 2, SMax 50]" "''state''" "q_state q" "q_state v"] f by simp
  moreover have "q_zip_code v = q_zip_code q"
    using joi_string_value[of "[SPattern zip_pattern]" "''zip_code''" "q_zip_code q"
        "q_zip_code v"] f by simp
  moreover have "q_min_rent v = q_min_rent q"
    using joi_number_value[of "[NPositive, NMax (Lit 50000)]" "[]" "''min_rent''" "q_min_rent q"
        "q_min_rent v"] f
    by (simp add: option.map_ident cong: option.map_cong)
  moreover have "q_max_rent v = q_max_rent q"
    using joi_number_value[of "[NPositive, NMax (Lit 50000), NGreater (Ref ''min_rent'')]"
        "[(''min_rent'', q_min_rent v)]" "''max_rent''" "q_max_rent q" "q_max_rent v"] f
    by (simp add: option.map_ident cong: option.map_cong)
  moreover have "q_min_bedrooms v = q_min_bedrooms q"
    using joi_number_value[of "[NInteger, NMin (Lit 0), NMax (Lit 20)]" "[]" "''min_bedrooms''"
        "q_min_bedrooms q" "q_min_bedrooms v"] f
    by (simp add: option.map_ident cong: option.map_cong)
  moreover have "q_max_bedrooms v = q_max_bedrooms q"
    using joi_number_value[of "[NInteger, NMin (Lit 0), NMax (Lit 20), NMin (Ref ''min_bedrooms'')]"
        "[(''min_bedrooms'', q_min_bedrooms v)]" "''max_bedrooms''" "q_max_bedrooms q"
        "q_max_bedrooms v"] f
    by (simp add: option.map_ident cong: option.map_cong)
  moreover have "q_min_bathrooms v = map_option round1 (q_min_bathrooms q)"
    using joi_number_value[of "[NPositive, NPrecision 1, NMax (Lit 20)]" "[]" "''min_bathrooms''"
        "q_min_bathrooms q" "q_min_bathrooms v"] f
    by (cases "q_min_bathrooms q") (simp_all add: round1_def)
  moreover have "q_max_bathrooms v = map_option round1 (q_max_bathrooms q)"
    using joi_number_value[of "[NPositive, NPrecision 1, NMax (Lit 20), NMin (Ref ''min_bathrooms'')]"
        "[(''min_bathrooms'', q_min_bathrooms v)]" "''max_bathrooms''" "q_max_bathrooms q"
        "q_max_bathrooms v"] f
    by (cases "q_max_bathrooms q") (simp_all add: round1_def)
  moreover have "q_min_sqft v = q_min_sqft q"
    using joi_number_value[of "[NInteger, NPositive, NMax (Lit 50000)]" "[]" "''min_sqft''"
        "q_min_sqft q" "q_min_sqft v"] f
    by (simp add: option.map_ident cong: option.map_cong)
  moreover have "q_max_sqft v = q_max_sqft q"
    using joi_number_value[of "[NInteger, NPositive, NMax (Lit 50000), NMin (Ref ''min_sqft'')]"
        "[(''min_sqft'', q_min_sqft v)]" "''max_sqft''" "q_max_sqft q" "q_max_sqft v"] f
    by (simp add: option.map_ident cong: option.map_cong)
  moreover have "q_landlord_verified v = q_landlord_verified q" using f by simp
  ultimately show ?thesis by blast
qed

lemma rent_omitted:
  assumes "q_min_rent v = None" "q_max_rent v = None"
  shows "satisfies_filters v (p\<lparr>p_rent_amount := x\<rparr>) = satisfies_filters v p"
  using assms by (simp add: satisfies_filters_def at_least_def at_most_def cong: option.case_cong)

lemma round_104: "math_round (52 / 5) = 10"
  by code_simp

lemma bathrooms_query_valid: "searchPropertiesSchema bathrooms_query = Inr bathrooms_value"
  by (simp add: searchPropertiesSchema_def bathrooms_query_def bathrooms_value_def no_filters_def
        bind_err_def joi_string_def joi_number_def joi_boolean_def round_104)

lemma rent_query_valid: "searchPropertiesSchema rent_query = Inr rent_value"
  by (simp add: searchPropertiesSchema_def rent_query_def rent_value_def no_filters_def
        bind_err_def joi_string_def joi_number_def joi_boolean_def)

lemma studio_joined: "joined studio_store = [(studio, example_landlord)]"
  by (simp add: joined_def studio_store_def example_store_def studio_def example_landlord_def
        user_id_def)

lemma order_single: "order_rows oc [x] = [x]"
  by (cases oc; cases x) (auto simp: order_rows_def Let_def split: direction.splits)

text \<open>
  Claim C2 as stated (every returned property satisfies every supplied range filter) fails
  for a bathrooms bound with more than one decimal: \<^verbatim>\<open>precision(1)\<close> makes validation
  round \<^verbatim>\<open>min_bathrooms = 1.04\<close> to 1, so a listing with one bathroom is returned.
\<close>

theorem search_rounded_bathrooms_counterexample:
  "q_min_bathrooms bathrooms_query = Some (104 / 100) \<and>
   listings_of (fst (run pg (searchProperties bathrooms_query) studio_store)) =
     [(studio, example_landlord)] \<and>
   p_bathrooms studio = Some 1 \<and> (1 :: num) < 104 / 100"
proof -
  have l: "q_limit bathrooms_value = Some (of_nat 20)" "q_offset bathrooms_value = Some (of_nat 0)"
    by (simp_all add: bathrooms_value_def)
  have s: "satisfies_filters bathrooms_value studio"
    by (simp add: satisfies_filters_def bathrooms_value_def no_filters_def at_least_def at_most_def
          studio_def)
  have ls: "listings_of (fst (run pg (searchProperties bathrooms_query) studio_store)) =
     [(studio, example_landlord)]"
    using s
    by (simp add: search_run_pg[OF bathrooms_query_valid l] studio_joined order_single
          search_respond_def listings_of_def Let_def)
  have q: "q_min_bathrooms bathrooms_query = Some (104 / 100)"
    by (simp add: bathrooms_query_def)
  have b: "p_bathrooms studio = Some 1" by (simp add: studio_def)
  show ?thesis using ls q b by simp
qed

text \<open>
  Claim C2, amended.  For a search request that passes validation the handler, run against
  the store, answers 200 and leaves the store as it was; its listings are the page (limit,
  offset) of the ordered rows of the join of \<^verbatim>\<open>properties\<close> with \<^verbatim>\<open>users\<close> that satisfy
  the supplied filters, and the count is the number of those rows.  Every returned listing
  satisfies every filter of the validated request; these are the supplied values, except
  that the bathrooms bounds are the supplied ones rounded to one decimal.  An omitted
  parameter asks nothing: with neither rent bound supplied, whether a row passes does not
  depend on its rent, which may be NULL.
\<close>

theorem search_results_satisfy_filters:
  assumes "searchPropertiesSchema q = Inr v"
  shows "\<exists>L K. q_limit v = Some (of_nat L) \<and> q_offset v = Some (of_nat K) \<and>
     snd (run pg (searchProperties q) s) = s \<and>
     status (fst (run pg (searchProperties q) s)) = 200 \<and>
     listings_of (fst (run pg (searchProperties q) s)) =
       take L (drop K
         (order_rows (order_clause_of (case q_sort_by v of None \<Rightarrow> ''newest'' | Some x \<Rightarrow> x))
            (filter (\<lambda>(p, u). satisfies_filters v p) (joined s)))) \<and>
     (\<forall>(p, u)\<in>set (listings_of (fst (run pg (searchProperties q) s))). satisfies_filters v p) \<and>
     map_option total_count (pagination_of (fst (run pg (searchProperties q) s))) =
       Some (int (length (filter (\<lambda>(p, u). satisfies_filters v p) (joined s)))) \<and>
     q_city v = q_city q \<and> q_state v = q_state q \<and> q_zip_code v = q_zip_code q \<and>
     q_min_rent v = q_min_rent q \<and> q_max_rent v = q_max_rent q \<and>
     q_min_bedrooms v = q_min_bedrooms q \<and> q_max_bedrooms v = q_max_bedrooms q \<and>
     q_min_bathrooms v = map_option round1 (q_min_bathrooms q) \<and>
     q_max_bathrooms v = map_option round1 (q_max_bathrooms q) \<and>
     q_min_sqft v = q_min_sqft q \<and> q_max_sqft v = q_max_sqft q \<and>
     q_landlord_verified v = q_landlord_verified q \<and>
     (q_min_rent q = None \<and> q_max_rent q = None \<longrightarrow>
        satisfies_filters v (p\<lparr>p_rent_amount := None\<rparr>) = satisfies_filters v p)"
proof -
  obtain L K :: nat where LK: "q_limit v = Some (of_nat L)" "q_offset v = Some (of_nat K)"
    using search_valid_page[OF assms] by blast
  let ?rows = "take L (drop K
         (order_rows (order_clause_of (case q_sort_by v of None \<Rightarrow> ''newest'' | Some x \<Rightarrow> x))
            (filter (\<lambda>(p, u). satisfies_filters v p) (joined s))))"
  note run = search_run_pg[OF assms LK, of s]
  have st: "status (fst (run pg (searchProperties q) s)) = 200"
    and ls: "listings_of (fst (run pg (searchProperties q) s)) = ?rows"
    and tc: "map_option total_count (pagination_of (fst (run pg (searchProperties q) s))) =
       Some (int (length (filter (\<lambda>(p, u). satisfies_filters v p) (joined s))))"
    unfolding run by (simp_all add: search_respond_def listings_of_def pagination_of_def Let_def)
  have "set ?rows \<subseteq> set (drop K
         (order_rows (order_clause_of (case q_sort_by v of None \<Rightarrow> ''newest'' | Some x \<Rightarrow> x))
            (filter (\<lambda>(p, u). satisfies_filters v p) (joined s))))"
    by (rule set_take_subset)
  also have "\<dots> \<subseteq> set (order_rows
            (order_clause_of (case q_sort_by v of None \<Rightarrow> ''newest'' | Some x \<Rightarrow> x))
            (filter (\<lambda>(p, u). satisfies_filters v p) (joined s)))"
    by (rule set_drop_subset)
  also have "\<dots> = set (filter (\<lambda>(p, u). satisfies_filters v p) (joined s))"
    by (rule set_order_rows)
  finally have sub: "set ?rows \<subseteq> set (filter (\<lambda>(p, u). satisfies_filters v p) (joined s))" .
  have all: "\<forall>(p, u)\<in>set (listings_of (fst (run pg (searchProperties q) s))). satisfies_filters v p"
    unfolding ls using sub by auto
  note rel = search_valid_filters[OF assms]
  have om: "q_min_rent q = None \<and> q_max_rent q = None \<longrightarrow>
        satisfies_filters v (p\<lparr>p_rent_amount := None\<rparr>) = satisfies_filters v p"
    using rel rent_omitted[where v = v and p = p and x = None] by simp
  have sn: "snd (run pg (searchProperties q) s) = s" unfolding run by simp
  show ?thesis
    using LK sn st ls all tc rel om by blast
qed

theorem search_results_satisfy_filters_witness:
  "searchPropertiesSchema rent_query = Inr rent_value \<and>
   listings_of (fst (run pg (searchProperties rent_query) studio_store)) =
     [(studio, example_landlord)] \<and>
   (studio, example_landlord) \<in> set (listings_of (fst (run pg (searchProperties rent_query) studio_store))) \<and>
   satisfies_filters rent_value studio \<and> q_min_rent rent_value = q_min_rent rent_query"
proof -
  have l: "q_limit rent_value = Some (of_nat 20)" "q_offset rent_value = Some (of_nat 0)"
    by (simp_all add: rent_value_def)
  have s: "satisfies_filters rent_value studio"
    by (simp add: satisfies_filters_def rent_value_def no_filters_def at_least_def at_most_def
          studio_def)
  have ls: "listings_of (fst (run pg (searchProperties rent_query) studio_store)) =
     [(studio, example_landlord)]"
    using s
    by (simp add: search_run_pg[OF rent_query_valid l] studio_joined order_single
          search_respond_def listings_of_def Let_def)
  from search_results_satisfy_filters [OF rent_query_valid, of studio_store studio]
  have "\<forall>(p, u)\<in>set (listings_of (fst (run pg (searchProperties rent_query) studio_store))).
          satisfies_filters rent_value p"
    and "q_min_rent rent_value = q_min_rent rent_query"
    by blast+
  then show ?thesis using rent_query_valid ls by simp
qed

end
